theory Spec2Isabelle
  imports Complex_Main "HOL-Library.FSet"
begin

section \<open>Machine numbers\<close>

text \<open>
  The integers \<^verbatim>\<open>int32\<close> and \<^verbatim>\<open>int64\<close> are \<open>int\<close>; where the program adds, multiplies,
  divides or converts them the wrap-around is written out. A \<^verbatim>\<open>time.Time\<close> is an integer
  number of nanoseconds, a \<^verbatim>\<open>time.Duration\<close> likewise.
\<close>

type_synonym time = int
type_synonym duration = int

definition wrap64 :: "int \<Rightarrow> int" where
  "wrap64 n = (n + 9223372036854775808) mod 18446744073709551616 - 9223372036854775808"

definition wrap32 :: "int \<Rightarrow> int" where
  "wrap32 n = (n + 2147483648) mod 4294967296 - 2147483648"

text \<open>The quotient of Go's integer division, truncated towards zero, for a divisor other
  than zero.\<close>

definition go_quot :: "int \<Rightarrow> int \<Rightarrow> int" where
  "go_quot a b = sgn a * sgn b * (\<bar>a\<bar> div \<bar>b\<bar>)"

text \<open>
  A \<^verbatim>\<open>float64\<close> is an IEEE 754 binary64 value: a finite number, which is a real of the
  form \<open>m \<sqdot> 2^e\<close> with \<open>|m| < 2^53\<close> and \<open>-1074 \<le> e \<le> 971\<close>, an infinity, or NaN. The sign of
  zero is not represented: every zero that the functions below divide by is the conversion
  of an integer, the positive zero, and no other operation of theirs tells the two zeros
  apart.
\<close>

datatype float64 = Finite real | PosInf | NegInf | NaN

definition pow2 :: "int \<Rightarrow> real" where
  "pow2 e = (if 0 \<le> e then 2 ^ nat e else 1 / 2 ^ nat (- e))"

text \<open>The binary exponent \<open>e\<close> of a positive real \<open>x\<close>, \<open>2^e \<le> x < 2^(e+1)\<close>, found by halving or
  doubling at most \<open>fuel\<close> times.\<close>

fun f64_exponent :: "nat \<Rightarrow> real \<Rightarrow> int" where
  "f64_exponent 0 x = 0"
| "f64_exponent (Suc fuel) x =
     (if 2 \<le> x then f64_exponent fuel (x / 2) + 1
      else if x < 1 then f64_exponent fuel (x * 2) - 1
      else 0)"

text \<open>The nearest integer, the even one of two that are equally near.\<close>

definition roundToEven :: "real \<Rightarrow> int" where
  "roundToEven x =
     (let f = \<lfloor>x\<rfloor>; d = x - of_int f
      in if d < 1/2 then f else if 1/2 < d then f + 1 else if even f then f else f + 1)"

text \<open>Rounding of a real to binary64, to nearest and ties to even: 53 significant bits
  above \<open>2^(-1022)\<close>, multiples of \<open>2^(-1074)\<close> below, an infinity from \<open>2^1024\<close> on.\<close>

definition round64 :: "real \<Rightarrow> float64" where
  "round64 x =
     (if pow2 1024 \<le> \<bar>x\<bar> then (if 0 < x then PosInf else NegInf)
      else
        (let e = (if \<bar>x\<bar> < pow2 (- 1022) then - 1022 else f64_exponent 2100 \<bar>x\<bar>);
             ulp = pow2 (e - 52);
             y = of_int (roundToEven (x / ulp)) * ulp
         in if pow2 1024 \<le> \<bar>y\<bar> then (if 0 < x then PosInf else NegInf) else Finite y))"

text \<open>The conversion \<^verbatim>\<open>float64(n)\<close> of an integer.\<close>

definition f64_of_int :: "int \<Rightarrow> float64" where
  "f64_of_int n = round64 (of_int n)"

fun f64_negative :: "float64 \<Rightarrow> bool" where
  "f64_negative (Finite x) = (x < 0)"
| "f64_negative NegInf = True"
| "f64_negative a = False"

text \<open>\<^verbatim>\<open>math.Abs\<close>, the operators \<^verbatim>\<open>-\<close>, \<^verbatim>\<open>*\<close> and \<^verbatim>\<open>/\<close>, the comparisons \<^verbatim>\<open><\<close> and
  \<^verbatim>\<open><=\<close> (false when an operand is NaN) and \<^verbatim>\<open>math.Ceil\<close>.\<close>

fun f64_abs :: "float64 \<Rightarrow> float64" where
  "f64_abs (Finite x) = Finite \<bar>x\<bar>"
| "f64_abs PosInf = PosInf"
| "f64_abs NegInf = PosInf"
| "f64_abs NaN = NaN"

fun f64_sub :: "float64 \<Rightarrow> float64 \<Rightarrow> float64" where
  "f64_sub (Finite x) (Finite y) = round64 (x - y)"
| "f64_sub NaN b = NaN"
| "f64_sub a NaN = NaN"
| "f64_sub PosInf PosInf = NaN"
| "f64_sub NegInf NegInf = NaN"
| "f64_sub PosInf b = PosInf"
| "f64_sub NegInf b = NegInf"
| "f64_sub a PosInf = NegInf"
| "f64_sub a NegInf = PosInf"

fun f64_mul :: "float64 \<Rightarrow> float64 \<Rightarrow> float64" where
  "f64_mul (Finite x) (Finite y) = round64 (x * y)"
| "f64_mul NaN b = NaN"
| "f64_mul a NaN = NaN"
| "f64_mul a b =
     (if a = Finite 0 \<or> b = Finite 0 then NaN
      else if f64_negative a = f64_negative b then PosInf else NegInf)"

fun f64_div :: "float64 \<Rightarrow> float64 \<Rightarrow> float64" where
  "f64_div (Finite x) (Finite y) =
     (if y = 0 then (if x = 0 then NaN else if 0 < x then PosInf else NegInf)
      else round64 (x / y))"
| "f64_div NaN b = NaN"
| "f64_div a NaN = NaN"
| "f64_div (Finite x) b = Finite 0"
| "f64_div a (Finite y) = (if f64_negative a = (y < 0) then PosInf else NegInf)"
| "f64_div a b = NaN"

fun f64_lt :: "float64 \<Rightarrow> float64 \<Rightarrow> bool" where
  "f64_lt (Finite x) (Finite y) = (x < y)"
| "f64_lt NaN b = False"
| "f64_lt a NaN = False"
| "f64_lt a NegInf = False"
| "f64_lt NegInf b = True"
| "f64_lt PosInf b = False"
| "f64_lt a PosInf = True"

definition f64_le :: "float64 \<Rightarrow> float64 \<Rightarrow> bool" where
  "f64_le a b = (a \<noteq> NaN \<and> b \<noteq> NaN \<and> (a = b \<or> f64_lt a b))"

fun f64_ceil :: "float64 \<Rightarrow> float64" where
  "f64_ceil (Finite x) = Finite (of_int \<lceil>x\<rceil>)"
| "f64_ceil a = a"

text \<open>The conversion \<^verbatim>\<open>int32(x)\<close> of a \<^verbatim>\<open>float64\<close>: the fraction is discarded. Go leaves
  the result to the implementation when the value does not fit; the model takes the
  smallest \<^verbatim>\<open>int32\<close>, the answer of the amd64 conversion instruction for every value out
  of range, infinite or NaN.\<close>

fun int32_of_f64 :: "float64 \<Rightarrow> int" where
  "int32_of_f64 (Finite x) =
     (let t = (if 0 \<le> x then \<lfloor>x\<rfloor> else \<lceil>x\<rceil>)
      in if - 2147483648 \<le> t \<and> t < 2147483648 then t else - 2147483648)"
| "int32_of_f64 a = - 2147483648"

text \<open>The test \<^verbatim>\<open>math.Abs(1.0 - usageRatio) <= e.Tolerance\<close>, and the default of the
  configuration variable \<^verbatim>\<open>tolerance\<close>, \<^verbatim>\<open>float64(0.1)\<close>.\<close>

definition withinTolerance :: "float64 \<Rightarrow> float64 \<Rightarrow> bool" where
  "withinTolerance Tolerance usageRatio = f64_le (f64_abs (f64_sub (Finite 1) usageRatio)) Tolerance"

definition defaultTolerance :: float64 where
  "defaultTolerance = round64 (1/10)"

section \<open>Data model\<close>

text \<open>\<^verbatim>\<open>metricsclient.PodMetric\<close> and \<^verbatim>\<open>metricsclient.PodMetricsInfo\<close> (a Go map from pod
  name to sample; a nil map is the empty map).\<close>

record PodMetric =
  pm_Timestamp :: time
  pm_Window :: duration
  pm_Value :: int

type_synonym PodMetricsInfo = "string \<rightharpoonup> PodMetric"

text \<open>The composite literal \<^verbatim>\<open>metricsclient.PodMetric{Value: v}\<close>: the other fields take
  their zero values.\<close>

definition PodMetricValue :: "int \<Rightarrow> PodMetric" where
  "PodMetricValue v = \<lparr>pm_Timestamp = 0, pm_Window = 0, pm_Value = v\<rparr>"

text \<open>The loop \<^verbatim>\<open>for podName := range pods { metrics[podName] = PodMetric{Value: v} }\<close> over a
  \<^verbatim>\<open>sets.String\<close>; the value may depend on the pod name (the utilization mode writes
  \<^verbatim>\<open>requests[podName]\<close>). The order of the iteration does not matter.\<close>

definition setMetrics :: "PodMetricsInfo \<Rightarrow> string fset \<Rightarrow> (string \<Rightarrow> int) \<Rightarrow> PodMetricsInfo" where
  "setMetrics metrics pods v =
     (\<lambda>podName. if podName |\<in>| pods then Some (PodMetricValue (v podName)) else metrics podName)"

text \<open>\<^verbatim>\<open>len(metrics)\<close> of a Go map.\<close>

definition len_metrics :: "PodMetricsInfo \<Rightarrow> nat" where
  "len_metrics metrics = card (dom metrics)"

text \<open>A run-time panic, which no caller in this program recovers from, and the failure of
  a call: an error value returned by the Go function, with its message, or a panic.\<close>

datatype panic = NilPointerDereference | IntegerDivideByZero

datatype failure = Error string | Panic panic

abbreviation NilPointerPanic :: failure where
  "NilPointerPanic \<equiv> Panic NilPointerDereference"

text \<open>\<^verbatim>\<open>autoscaling.MetricTarget\<close>. A \<^verbatim>\<open>*resource.Quantity\<close> is represented by the result
  of its \<^verbatim>\<open>MilliValue()\<close>, a nil pointer by \<open>None\<close>.\<close>

record MetricTarget =
  mt_Type :: string
  mt_Value :: "int option"
  mt_AverageValue :: "int option"
  mt_AverageUtilization :: "int option"

text \<open>The four metric sources of \<^verbatim>\<open>autoscaling.MetricSpec\<close>
  (\<^verbatim>\<open>ObjectMetricSource\<close>, \<^verbatim>\<open>PodsMetricSource\<close>, \<^verbatim>\<open>ResourceMetricSource\<close>,
  \<^verbatim>\<open>ExternalMetricSource\<close>) are reduced to the fields the evaluators read: a name and the
  target.\<close>

record MetricSource =
  src_Name :: string
  src_Target :: MetricTarget

record MetricSpec =
  ms_Type :: string
  ms_Object :: "MetricSource option"
  ms_Pods :: "MetricSource option"
  ms_Resource :: "MetricSource option"
  ms_External :: "MetricSource option"

record ResourceMetric =
  rm_PodMetricsInfo :: PodMetricsInfo
  rm_Requests :: "string \<rightharpoonup> int"
  rm_ReadyPodCount :: int
  rm_IgnoredPods :: "string fset"
  rm_MissingPods :: "string fset"
  rm_TotalPods :: int
  rm_Timestamp :: time

record PodsMetric =
  pd_PodMetricsInfo :: PodMetricsInfo
  pd_ReadyPodCount :: int
  pd_IgnoredPods :: "string fset"
  pd_MissingPods :: "string fset"
  pd_TotalPods :: int
  pd_Timestamp :: time

record ObjectMetric =
  ob_Utilization :: int
  ob_ReadyPodCount :: "int option"
  ob_Timestamp :: time

record ExternalMetric =
  ex_Utilization :: int
  ex_ReadyPodCount :: "int option"
  ex_Timestamp :: time

text \<open>\<^verbatim>\<open>metric.Metric\<close> (\<^verbatim>\<open>metric.CombinedMetric\<close> in the earlier sources, with the
  same fields).\<close>

record Metric =
  m_CurrentReplicas :: int
  m_Spec :: MetricSpec
  m_Resource :: "ResourceMetric option"
  m_Pods :: "PodsMetric option"
  m_Object :: "ObjectMetric option"
  m_External :: "ExternalMetric option"

text \<open>\<^verbatim>\<open>evaluate.Evaluation\<close>.\<close>

record Evaluation =
  ev_TargetReplicas :: int

text \<open>\<^verbatim>\<open>autoscaling.MetricSourceType\<close> and \<^verbatim>\<open>autoscaling.MetricTargetType\<close> constants.\<close>

definition ObjectMetricSourceType :: string where "ObjectMetricSourceType = ''Object''"
definition PodsMetricSourceType :: string where "PodsMetricSourceType = ''Pods''"
definition ResourceMetricSourceType :: string where "ResourceMetricSourceType = ''Resource''"
definition ExternalMetricSourceType :: string where "ExternalMetricSourceType = ''External''"
definition ValueMetricType :: string where "ValueMetricType = ''Value''"
definition AverageValueMetricType :: string where "AverageValueMetricType = ''AverageValue''"

section \<open>The replica calculations of the evaluator (package evaluate)\<close>

text \<open>\<^verbatim>\<open>Evaluator.getUsageRatioReplicaCount\<close>; the first argument is the field
  \<^verbatim>\<open>e.Tolerance\<close>.\<close>

definition getUsageRatioReplicaCount :: "float64 \<Rightarrow> int \<Rightarrow> float64 \<Rightarrow> int \<Rightarrow> int" where
  "getUsageRatioReplicaCount Tolerance currentReplicas usageRatio readyPodCount =
     (if currentReplicas \<noteq> 0 then
        (if withinTolerance Tolerance usageRatio then currentReplicas
         else int32_of_f64 (f64_ceil (f64_mul usageRatio (f64_of_int readyPodCount))))
      else int32_of_f64 (f64_ceil usageRatio))"

text \<open>\<^verbatim>\<open>Evaluator.getPlainMetricReplicaCount\<close>. The function
  \<^verbatim>\<open>metricsclient.GetMetricUtilizationRatio\<close> belongs to the Kubernetes library, not to this
  repository; it is the parameter \<open>ratio\<close> (its first result only, the second is discarded by
  the caller), which returns a usage ratio or panics. The Go function writes the synthetic
  samples into the map it was given, so the model returns the replica count together with
  the final content of that map.\<close>

definition getPlainMetricReplicaCount ::
  "(PodMetricsInfo \<Rightarrow> int \<Rightarrow> panic + float64) \<Rightarrow> float64 \<Rightarrow> PodMetricsInfo \<Rightarrow> int \<Rightarrow> int \<Rightarrow> int \<Rightarrow>
   string fset \<Rightarrow> string fset \<Rightarrow> panic + (int \<times> PodMetricsInfo)" where
  "getPlainMetricReplicaCount ratio Tolerance metrics currentReplicas targetUtilization
       readyPodCount missingPods ignoredPods =
     (case ratio metrics targetUtilization of
        Inl p \<Rightarrow> Inl p
      | Inr usageRatio \<Rightarrow>
          (let rebalanceIgnored = (fcard ignoredPods > 0 \<and> f64_lt (Finite 1) usageRatio)
           in if \<not> rebalanceIgnored \<and> fcard missingPods = 0 then
                (if withinTolerance Tolerance usageRatio then Inr (currentReplicas, metrics)
                 else Inr (int32_of_f64 (f64_ceil (f64_mul usageRatio (f64_of_int readyPodCount))),
                           metrics))
              else
                (let metrics1 =
                       (if fcard missingPods > 0 then
                          (if f64_lt usageRatio (Finite 1)
                           then setMetrics metrics missingPods (\<lambda>podName. targetUtilization)
                           else setMetrics metrics missingPods (\<lambda>podName. 0))
                        else metrics);
                     metrics2 =
                       (if rebalanceIgnored then setMetrics metrics1 ignoredPods (\<lambda>podName. 0)
                        else metrics1)
                 in case ratio metrics2 targetUtilization of
                      Inl p \<Rightarrow> Inl p
                    | Inr newUsageRatio \<Rightarrow>
                        if withinTolerance Tolerance newUsageRatio
                           \<or> (f64_lt usageRatio (Finite 1) \<and> f64_lt (Finite 1) newUsageRatio)
                           \<or> (f64_lt (Finite 1) usageRatio \<and> f64_lt newUsageRatio (Finite 1))
                        then Inr (currentReplicas, metrics2)
                        else Inr (int32_of_f64
                                    (f64_ceil (f64_mul newUsageRatio
                                                 (f64_of_int (int (len_metrics metrics2))))),
                                  metrics2))))"

text \<open>Modelled from the spec: \<^verbatim>\<open>metricsclient.GetMetricUtilizationRatio\<close> is not under
  src/. The specification defines the usage ratio of the plain-metric mode as
  \<open>u = (\<Sigma> samples) / (|samples| \<sqdot> T)\<close>. The Kubernetes function named by the sources
  takes the sum and the average of the samples in \<^verbatim>\<open>int64\<close>, so that it panics with an
  integer division by zero on an empty map, and divides the average by the target in
  \<^verbatim>\<open>float64\<close>. It is used to run the calculation on concrete inputs, on which
  the sum is a multiple of the number of samples, so that the two agree; the general
  results hold for every \<open>ratio\<close>.\<close>

definition GetMetricUtilizationRatio :: "PodMetricsInfo \<Rightarrow> int \<Rightarrow> panic + float64" where
  "GetMetricUtilizationRatio metrics targetUtilization =
     (let metricsTotal = wrap64 (\<Sum>podName \<in> dom metrics. pm_Value (the (metrics podName)))
      in if len_metrics metrics = 0 then Inl IntegerDivideByZero
         else
           (let currentUtilization = wrap64 (go_quot metricsTotal (int (len_metrics metrics)))
            in Inr (f64_div (f64_of_int currentUtilization) (f64_of_int targetUtilization))))"

section \<open>The resource evaluator (package resource)\<close>

text \<open>The body of the \<^verbatim>\<open>AverageUtilization\<close> branch of
  \<^verbatim>\<open>resource.Evaluate.GetEvaluation\<close>; the same statements form that branch of the earlier
  \<^verbatim>\<open>Evaluator.getResourceEvaluation\<close>. \<^verbatim>\<open>metricsclient.GetResourceUtilizationRatio\<close> is
  Kubernetes library code and the parameter \<open>uratio\<close>: it returns an error message or the
  usage ratio. Reading \<^verbatim>\<open>requests[podName]\<close> for an absent key gives 0. The result carries
  the final content of the sample map.\<close>

definition averageUtilizationReplicas ::
  "(PodMetricsInfo \<Rightarrow> (string \<rightharpoonup> int) \<Rightarrow> int \<Rightarrow> string + float64) \<Rightarrow> float64 \<Rightarrow> int \<Rightarrow> int \<Rightarrow>
   ResourceMetric \<Rightarrow> failure + (Evaluation \<times> PodMetricsInfo)" where
  "averageUtilizationReplicas uratio Tolerance currentReplicas targetUtilization resource =
     (let metrics = rm_PodMetricsInfo resource;
          requests = rm_Requests resource;
          ignoredPods = rm_IgnoredPods resource;
          missingPods = rm_MissingPods resource;
          readyPodCount = rm_ReadyPodCount resource
      in case uratio metrics requests targetUtilization of
           Inl err \<Rightarrow> Inl (Error err)
         | Inr usageRatio \<Rightarrow>
             (let rebalanceIgnored = (fcard ignoredPods > 0 \<and> f64_lt (Finite 1) usageRatio)
              in if \<not> rebalanceIgnored \<and> fcard missingPods = 0 then
                   (if withinTolerance Tolerance usageRatio
                    then Inr (\<lparr>ev_TargetReplicas = currentReplicas\<rparr>, metrics)
                    else Inr (\<lparr>ev_TargetReplicas =
                                 int32_of_f64 (f64_ceil (f64_mul usageRatio
                                                            (f64_of_int readyPodCount)))\<rparr>,
                              metrics))
                 else
                   (let metrics1 =
                          (if fcard missingPods > 0 then
                             (if f64_lt usageRatio (Finite 1) then
                                setMetrics metrics missingPods
                                  (\<lambda>podName. case requests podName of None \<Rightarrow> 0 | Some q \<Rightarrow> q)
                              else if f64_lt (Finite 1) usageRatio then
                                setMetrics metrics missingPods (\<lambda>podName. 0)
                              else metrics)
                           else metrics);
                        metrics2 =
                          (if rebalanceIgnored then setMetrics metrics1 ignoredPods (\<lambda>podName. 0)
                           else metrics1)
                    in case uratio metrics2 requests targetUtilization of
                         Inl err \<Rightarrow> Inl (Error err)
                       | Inr newUsageRatio \<Rightarrow>
                           if withinTolerance Tolerance newUsageRatio
                              \<or> (f64_lt usageRatio (Finite 1) \<and> f64_lt (Finite 1) newUsageRatio)
                              \<or> (f64_lt (Finite 1) usageRatio \<and> f64_lt newUsageRatio (Finite 1))
                           then Inr (\<lparr>ev_TargetReplicas = currentReplicas\<rparr>, metrics2)
                           else Inr (\<lparr>ev_TargetReplicas =
                                        int32_of_f64
                                          (f64_ceil (f64_mul newUsageRatio
                                                       (f64_of_int (int (len_metrics metrics2)))))\<rparr>,
                                     metrics2))))"

text \<open>\<^verbatim>\<open>resource.Evaluate.GetEvaluation\<close>. The field \<^verbatim>\<open>Calculater\<close> is an interface of the
  package calculate; its method \<^verbatim>\<open>GetPlainMetricReplicaCount\<close> is the parameter \<open>calc\<close>.
  Dereferencing \<^verbatim>\<open>gatheredMetric.Spec.Resource\<close> or \<^verbatim>\<open>gatheredMetric.Resource\<close> when nil
  panics.\<close>

definition Resource_GetEvaluation ::
  "(PodMetricsInfo \<Rightarrow> int \<Rightarrow> int \<Rightarrow> int \<Rightarrow> string fset \<Rightarrow> string fset \<Rightarrow> panic + (int \<times> PodMetricsInfo)) \<Rightarrow>
   (PodMetricsInfo \<Rightarrow> (string \<rightharpoonup> int) \<Rightarrow> int \<Rightarrow> string + float64) \<Rightarrow> float64 \<Rightarrow> int \<Rightarrow> Metric \<Rightarrow>
   failure + (Evaluation \<times> PodMetricsInfo)" where
  "Resource_GetEvaluation calc uratio Tolerance currentReplicas gatheredMetric =
     (case ms_Resource (m_Spec gatheredMetric) of
        None \<Rightarrow> Inl NilPointerPanic
      | Some specResource \<Rightarrow>
          (case mt_AverageValue (src_Target specResource) of
             Some averageValue \<Rightarrow>
               (case m_Resource gatheredMetric of
                  None \<Rightarrow> Inl NilPointerPanic
                | Some resource \<Rightarrow>
                    (case calc (rm_PodMetricsInfo resource) currentReplicas averageValue
                            (rm_ReadyPodCount resource) (rm_MissingPods resource)
                            (rm_IgnoredPods resource) of
                       Inl p \<Rightarrow> Inl (Panic p)
                     | Inr (replicaCount, metrics') \<Rightarrow>
                         Inr (\<lparr>ev_TargetReplicas = replicaCount\<rparr>, metrics')))
           | None \<Rightarrow>
               (case mt_AverageUtilization (src_Target specResource) of
                  Some targetUtilization \<Rightarrow>
                    (case m_Resource gatheredMetric of
                       None \<Rightarrow> Inl NilPointerPanic
                     | Some resource \<Rightarrow>
                         averageUtilizationReplicas uratio Tolerance currentReplicas
                           targetUtilization resource)
                | None \<Rightarrow>
                    Inl (Error ''invalid resource metric source: neither a utilization target nor a value target was set''))))"

text \<open>Modelled from the spec: \<^verbatim>\<open>metricsclient.GetResourceUtilizationRatio\<close> is not under
  src/. The specification gives \<open>u = (\<Sigma> samples / \<Sigma> requests) / targetUtilizationFraction\<close>
  and a failure when no sample matches any pod with a known request; the message is the
  one the tests of the resource evaluator expect. The Kubernetes function sums, over the
  pods that have both a sample and a request, the samples and the requests in \<^verbatim>\<open>int64\<close>,
  fails when the requests sum to zero, takes the utilization in percent as an \<^verbatim>\<open>int32\<close>
  quotient and divides it by the target in \<^verbatim>\<open>float64\<close>. As \<open>GetMetricUtilizationRatio\<close>,
  it serves to run the code on concrete inputs.\<close>

definition GetResourceUtilizationRatio ::
  "PodMetricsInfo \<Rightarrow> (string \<rightharpoonup> int) \<Rightarrow> int \<Rightarrow> string + float64" where
  "GetResourceUtilizationRatio metrics requests targetUtilization =
     (let known = dom metrics \<inter> dom requests;
          metricsTotal = wrap64 (\<Sum>podName \<in> known. pm_Value (the (metrics podName)));
          requestsTotal = wrap64 (\<Sum>podName \<in> known. the (requests podName))
      in if requestsTotal = 0 then Inl ''no metrics returned matched known pods''
         else
           (let currentUtilization =
                  wrap32 (wrap64 (go_quot (wrap64 (metricsTotal * 100)) requestsTotal))
            in Inr (f64_div (f64_of_int currentUtilization) (f64_of_int targetUtilization))))"

section \<open>The earlier evaluator (type Evaluator of package evaluate)\<close>

text \<open>The per-source evaluations of \<^verbatim>\<open>Evaluator\<close>. A dereference of a nil pointer
  (a metric source or a measurement that is absent, a nil quantity or ready-pod count) is
  the outcome \<open>NilPointerPanic\<close>.\<close>

definition getObjectEvaluation :: "float64 \<Rightarrow> int \<Rightarrow> Metric \<Rightarrow> failure + Evaluation" where
  "getObjectEvaluation Tolerance currentReplicas gatheredMetric =
     (case ms_Object (m_Spec gatheredMetric) of
        None \<Rightarrow> Inl NilPointerPanic
      | Some specObject \<Rightarrow>
          if mt_Type (src_Target specObject) = ValueMetricType then
            (case (m_Object gatheredMetric, mt_Value (src_Target specObject)) of
               (Some object, Some targetValue) \<Rightarrow>
                 (case ob_ReadyPodCount object of
                    None \<Rightarrow> Inl NilPointerPanic
                  | Some readyPodCount \<Rightarrow>
                      (let usageRatio = f64_div (f64_of_int (ob_Utilization object))
                                          (f64_of_int targetValue);
                           replicaCount = getUsageRatioReplicaCount Tolerance currentReplicas
                                            usageRatio readyPodCount
                       in Inr \<lparr>ev_TargetReplicas = replicaCount\<rparr>))
             | _ \<Rightarrow> Inl NilPointerPanic)
          else if mt_Type (src_Target specObject) = AverageValueMetricType then
            (case (m_Object gatheredMetric, mt_AverageValue (src_Target specObject)) of
               (Some object, Some averageValue) \<Rightarrow>
                 (let utilization = ob_Utilization object;
                      usageRatio = f64_div (f64_of_int utilization)
                                     (f64_mul (f64_of_int averageValue)
                                        (f64_of_int currentReplicas))
                  in if f64_lt Tolerance (f64_abs (f64_sub (Finite 1) usageRatio))
                     then Inr \<lparr>ev_TargetReplicas =
                                 int32_of_f64 (f64_ceil (f64_div (f64_of_int utilization)
                                                           (f64_of_int averageValue)))\<rparr>
                     else Inr \<lparr>ev_TargetReplicas = currentReplicas\<rparr>)
             | _ \<Rightarrow> Inl NilPointerPanic)
          else Inl (Error ''invalid object metric source: neither a value target nor an average value target was set''))"

text \<open>\<^verbatim>\<open>Evaluator.getPodsEvaluation\<close> has no error result. It reads the missing and the
  ignored pods from \<^verbatim>\<open>gatheredMetric.Resource\<close> and the target from
  \<^verbatim>\<open>Spec.Pods.Target.Value\<close>, as the source does.\<close>

definition getPodsEvaluation ::
  "(PodMetricsInfo \<Rightarrow> int \<Rightarrow> panic + float64) \<Rightarrow> float64 \<Rightarrow> int \<Rightarrow> Metric \<Rightarrow> failure + Evaluation" where
  "getPodsEvaluation ratio Tolerance currentReplicas gatheredMetric =
     (case (m_Pods gatheredMetric, ms_Pods (m_Spec gatheredMetric), m_Resource gatheredMetric) of
        (Some pods, Some specPods, Some resource) \<Rightarrow>
          (case mt_Value (src_Target specPods) of
             None \<Rightarrow> Inl NilPointerPanic
           | Some targetValue \<Rightarrow>
               (case getPlainMetricReplicaCount ratio Tolerance (pd_PodMetricsInfo pods)
                       currentReplicas targetValue (pd_ReadyPodCount pods)
                       (rm_MissingPods resource) (rm_IgnoredPods resource) of
                  Inl p \<Rightarrow> Inl (Panic p)
                | Inr (targetReplicas, metrics') \<Rightarrow> Inr \<lparr>ev_TargetReplicas = targetReplicas\<rparr>))
      | _ \<Rightarrow> Inl NilPointerPanic)"

text \<open>\<^verbatim>\<open>Evaluator.getResourceEvaluation\<close>. In the \<^verbatim>\<open>AverageValue\<close> branch the target passed
  on is \<^verbatim>\<open>gatheredMetric.Spec.Object.Target.AverageValue.MilliValue()\<close>.\<close>

definition getResourceEvaluation ::
  "(PodMetricsInfo \<Rightarrow> int \<Rightarrow> panic + float64) \<Rightarrow> (PodMetricsInfo \<Rightarrow> (string \<rightharpoonup> int) \<Rightarrow> int \<Rightarrow> string + float64) \<Rightarrow>
   float64 \<Rightarrow> int \<Rightarrow> Metric \<Rightarrow> failure + (Evaluation \<times> PodMetricsInfo)" where
  "getResourceEvaluation ratio uratio Tolerance currentReplicas gatheredMetric =
     (case ms_Resource (m_Spec gatheredMetric) of
        None \<Rightarrow> Inl NilPointerPanic
      | Some specResource \<Rightarrow>
          if mt_AverageValue (src_Target specResource) \<noteq> None then
            (case (m_Resource gatheredMetric, ms_Object (m_Spec gatheredMetric)) of
               (Some resource, Some specObject) \<Rightarrow>
                 (case mt_AverageValue (src_Target specObject) of
                    None \<Rightarrow> Inl NilPointerPanic
                  | Some averageValue \<Rightarrow>
                      (case getPlainMetricReplicaCount ratio Tolerance (rm_PodMetricsInfo resource)
                              currentReplicas averageValue (rm_ReadyPodCount resource)
                              (rm_MissingPods resource) (rm_IgnoredPods resource) of
                         Inl p \<Rightarrow> Inl (Panic p)
                       | Inr (replicaCount, metrics') \<Rightarrow>
                           Inr (\<lparr>ev_TargetReplicas = replicaCount\<rparr>, metrics')))
             | _ \<Rightarrow> Inl NilPointerPanic)
          else if mt_AverageUtilization (src_Target specResource) \<noteq> None then
            (case m_Resource gatheredMetric of
               None \<Rightarrow> Inl NilPointerPanic
             | Some resource \<Rightarrow>
                 averageUtilizationReplicas uratio Tolerance currentReplicas
                   (the (mt_AverageUtilization (src_Target specResource))) resource)
          else Inl (Error ''invalid resource metric source: neither a utilization target nor a value target was set''))"

definition getExternalEvaluation :: "float64 \<Rightarrow> int \<Rightarrow> Metric \<Rightarrow> failure + Evaluation" where
  "getExternalEvaluation Tolerance currentReplicas gatheredMetric =
     (case ms_External (m_Spec gatheredMetric) of
        None \<Rightarrow> Inl NilPointerPanic
      | Some specExternal \<Rightarrow>
          (case mt_AverageValue (src_Target specExternal) of
             Some targetUtilizationPerPod \<Rightarrow>
               (case m_External gatheredMetric of
                  None \<Rightarrow> Inl NilPointerPanic
                | Some external \<Rightarrow>
                    (let utilization = ex_Utilization external;
                         usageRatio = f64_div (f64_of_int utilization)
                                        (f64_mul (f64_of_int targetUtilizationPerPod)
                                           (f64_of_int currentReplicas))
                     in if f64_lt Tolerance (f64_abs (f64_sub (Finite 1) usageRatio))
                        then Inr \<lparr>ev_TargetReplicas =
                                    int32_of_f64
                                      (f64_ceil (f64_div (f64_of_int utilization)
                                                   (f64_of_int targetUtilizationPerPod)))\<rparr>
                        else Inr \<lparr>ev_TargetReplicas = currentReplicas\<rparr>))
           | None \<Rightarrow>
               if mt_AverageUtilization (src_Target specExternal) \<noteq> None then
                 (case (m_External gatheredMetric, mt_Value (src_Target specExternal)) of
                    (Some external, Some targetUtilization) \<Rightarrow>
                      (case ex_ReadyPodCount external of
                         None \<Rightarrow> Inl NilPointerPanic
                       | Some readyPodCount \<Rightarrow>
                           (let usageRatio = f64_div (f64_of_int (ex_Utilization external))
                                               (f64_of_int targetUtilization)
                            in Inr \<lparr>ev_TargetReplicas =
                                      getUsageRatioReplicaCount Tolerance currentReplicas
                                        usageRatio readyPodCount\<rparr>))
                  | _ \<Rightarrow> Inl NilPointerPanic)
               else Inl (Error ''invalid external metric source: neither a value target nor an average value target was set'')))"

text \<open>The verb \<^verbatim>\<open>%q\<close> of \<^verbatim>\<open>fmt\<close> on a string of printable ASCII characters without
  double quote or backslash: the string between double quotes.\<close>

definition quoted :: "string \<Rightarrow> string" where
  "quoted s = [CHR 0x22] @ s @ [CHR 0x22]"

text \<open>\<^verbatim>\<open>Evaluator.getEvaluation\<close>: the dispatch on the source type.\<close>

definition Evaluator_getEvaluation ::
  "(PodMetricsInfo \<Rightarrow> int \<Rightarrow> panic + float64) \<Rightarrow> (PodMetricsInfo \<Rightarrow> (string \<rightharpoonup> int) \<Rightarrow> int \<Rightarrow> string + float64) \<Rightarrow>
   float64 \<Rightarrow> int \<Rightarrow> Metric \<Rightarrow> failure + Evaluation" where
  "Evaluator_getEvaluation ratio uratio Tolerance currentReplicas gatheredMetric =
     (if ms_Type (m_Spec gatheredMetric) = ObjectMetricSourceType then
        getObjectEvaluation Tolerance currentReplicas gatheredMetric
      else if ms_Type (m_Spec gatheredMetric) = PodsMetricSourceType then
        getPodsEvaluation ratio Tolerance currentReplicas gatheredMetric
      else if ms_Type (m_Spec gatheredMetric) = ResourceMetricSourceType then
        map_sum id fst (getResourceEvaluation ratio uratio Tolerance currentReplicas gatheredMetric)
      else if ms_Type (m_Spec gatheredMetric) = ExternalMetricSourceType then
        getExternalEvaluation Tolerance currentReplicas gatheredMetric
      else Inl (Error (''unknown metric source type '' @ quoted (ms_Type (m_Spec gatheredMetric)))))"

text \<open>Decimal output of a count, as \<^verbatim>\<open>%v\<close> prints a non-negative \<^verbatim>\<open>int\<close>.\<close>

definition digit :: "nat \<Rightarrow> char" where
  "digit n = ''0123456789'' ! n"

function show_nat :: "nat \<Rightarrow> string" where
  "show_nat n = (if n < 10 then [digit n] else show_nat (n div 10) @ [digit (n mod 10)])"
  by pat_completeness auto
termination
  by (relation "measure id") auto

declare show_nat.simps [simp del]

text \<open>\<^verbatim>\<open>%v\<close> of an \<^verbatim>\<open>error\<close> variable: its message, or \<^verbatim>\<open><nil>\<close> when it was never
  assigned.\<close>

definition show_error :: "string option \<Rightarrow> string" where
  "show_error err = (case err of None \<Rightarrow> ''<nil>'' | Some msg \<Rightarrow> msg)"

definition invalidEvaluations :: "nat \<Rightarrow> nat \<Rightarrow> string option \<Rightarrow> string" where
  "invalidEvaluations invalidCount len firstError =
     ''invalid evaluations ('' @ show_nat invalidCount @ '' invalid out of '' @ show_nat len
       @ ''), first error is: '' @ show_error firstError"

definition invalidMetrics :: "nat \<Rightarrow> nat \<Rightarrow> string option \<Rightarrow> string" where
  "invalidMetrics invalidCount len firstError =
     ''invalid metrics ('' @ show_nat invalidCount @ '' invalid out of '' @ show_nat len
       @ ''), first error is: '' @ show_error firstError"

text \<open>The loop of \<^verbatim>\<open>Evaluator.GetEvaluation\<close> over the gathered metrics. The state is the
  variable \<^verbatim>\<open>evaluation\<close>, a pointer that is nil at first. An error of a metric is returned
  at once; \<^verbatim>\<open>invalidEvaluationsCount\<close> and \<^verbatim>\<open>invalidEvaluationError\<close> are never
  assigned.\<close>

fun Evaluator_loop ::
  "(Metric \<Rightarrow> failure + Evaluation) \<Rightarrow> Metric list \<Rightarrow> Evaluation option \<Rightarrow> failure + Evaluation option" where
  "Evaluator_loop getEv [] evaluation = Inr evaluation"
| "Evaluator_loop getEv (gatheredMetric # rest) evaluation =
     (case getEv gatheredMetric of
        Inl err \<Rightarrow> Inl err
      | Inr proposedEvaluation \<Rightarrow>
          (case evaluation of
             None \<Rightarrow> Evaluator_loop getEv rest (Some proposedEvaluation)
           | Some current \<Rightarrow>
               if ev_TargetReplicas proposedEvaluation > ev_TargetReplicas current
               then Evaluator_loop getEv rest (Some proposedEvaluation)
               else Evaluator_loop getEv rest (Some current)))"

text \<open>\<^verbatim>\<open>Evaluator.GetEvaluation\<close>. A successful return carries the pointer
  \<^verbatim>\<open>evaluation\<close>, \<open>None\<close> when it is nil. The gathered metrics are separate objects, as
  the ones decoded from the input are.\<close>

definition Evaluator_GetEvaluation ::
  "(PodMetricsInfo \<Rightarrow> int \<Rightarrow> panic + float64) \<Rightarrow> (PodMetricsInfo \<Rightarrow> (string \<rightharpoonup> int) \<Rightarrow> int \<Rightarrow> string + float64) \<Rightarrow>
   float64 \<Rightarrow> Metric list \<Rightarrow> failure + Evaluation option" where
  "Evaluator_GetEvaluation ratio uratio Tolerance gatheredMetrics =
     (let invalidEvaluationError = None;
          invalidEvaluationsCount = (0::nat)
      in case Evaluator_loop
                (\<lambda>gatheredMetric. Evaluator_getEvaluation ratio uratio Tolerance
                                     (m_CurrentReplicas gatheredMetric) gatheredMetric)
                gatheredMetrics None of
           Inl err \<Rightarrow> Inl err
         | Inr evaluation \<Rightarrow>
             if invalidEvaluationsCount \<ge> length gatheredMetrics
             then Inl (Error (invalidEvaluations invalidEvaluationsCount (length gatheredMetrics)
                                invalidEvaluationError))
             else Inr evaluation)"

section \<open>The evaluator facade (package evaluate, in metric/types.go)\<close>

text \<open>The struct \<^verbatim>\<open>Evaluate\<close>: four evaluators behind interfaces, taken as functions of
  their arguments. The pods evaluator has no error result: it returns an evaluation or
  panics.\<close>

record Evaluate =
  e_External :: "int \<Rightarrow> Metric \<Rightarrow> failure + Evaluation"
  e_Object :: "int \<Rightarrow> Metric \<Rightarrow> failure + Evaluation"
  e_Pods :: "int \<Rightarrow> Metric \<Rightarrow> panic + Evaluation"
  e_Resource :: "int \<Rightarrow> Metric \<Rightarrow> failure + Evaluation"

definition Evaluate_getEvaluation :: "Evaluate \<Rightarrow> int \<Rightarrow> Metric \<Rightarrow> failure + Evaluation" where
  "Evaluate_getEvaluation e currentReplicas gatheredMetric =
     (if ms_Type (m_Spec gatheredMetric) = ObjectMetricSourceType then
        e_Object e currentReplicas gatheredMetric
      else if ms_Type (m_Spec gatheredMetric) = PodsMetricSourceType then
        (case e_Pods e currentReplicas gatheredMetric of
           Inl p \<Rightarrow> Inl (Panic p)
         | Inr evaluation \<Rightarrow> Inr evaluation)
      else if ms_Type (m_Spec gatheredMetric) = ResourceMetricSourceType then
        e_Resource e currentReplicas gatheredMetric
      else if ms_Type (m_Spec gatheredMetric) = ExternalMetricSourceType then
        e_External e currentReplicas gatheredMetric
      else Inl (Error (''unknown metric source type '' @ quoted (ms_Type (m_Spec gatheredMetric)))))"

text \<open>The loop of \<^verbatim>\<open>Evaluate.GetEvaluation\<close>. The state is \<^verbatim>\<open>evaluation\<close>,
  \<^verbatim>\<open>invalidEvaluationError\<close> (the message, \<open>None\<close> for nil) and
  \<^verbatim>\<open>invalidEvaluationsCount\<close>. A panic of an evaluator ends the call.\<close>

fun Evaluate_loop ::
  "(Metric \<Rightarrow> failure + Evaluation) \<Rightarrow> Metric list \<Rightarrow> Evaluation option \<times> string option \<times> nat \<Rightarrow>
   failure + (Evaluation option \<times> string option \<times> nat)" where
  "Evaluate_loop getEv [] state = Inr state"
| "Evaluate_loop getEv (gatheredMetric # rest) (evaluation, invalidEvaluationError, invalidEvaluationsCount) =
     (case getEv gatheredMetric of
        Inl (Panic p) \<Rightarrow> Inl (Panic p)
      | Inl (Error err) \<Rightarrow>
          Evaluate_loop getEv rest
            (evaluation,
             (if invalidEvaluationsCount \<le> 0 then Some err else invalidEvaluationError),
             invalidEvaluationsCount + 1)
      | Inr proposedEvaluation \<Rightarrow>
          (case evaluation of
             None \<Rightarrow>
               Evaluate_loop getEv rest
                 (Some proposedEvaluation, invalidEvaluationError, invalidEvaluationsCount)
           | Some current \<Rightarrow>
               if ev_TargetReplicas proposedEvaluation > ev_TargetReplicas current
               then Evaluate_loop getEv rest
                      (Some proposedEvaluation, invalidEvaluationError, invalidEvaluationsCount)
               else Evaluate_loop getEv rest
                      (Some current, invalidEvaluationError, invalidEvaluationsCount)))"

definition Evaluate_GetEvaluation :: "Evaluate \<Rightarrow> Metric list \<Rightarrow> failure + Evaluation option" where
  "Evaluate_GetEvaluation e gatheredMetrics =
     (case Evaluate_loop
             (\<lambda>gatheredMetric. Evaluate_getEvaluation e (m_CurrentReplicas gatheredMetric)
                                  gatheredMetric)
             gatheredMetrics (None, None, 0) of
        Inl panic \<Rightarrow> Inl panic
      | Inr (evaluation, invalidEvaluationError, invalidEvaluationsCount) \<Rightarrow>
          if invalidEvaluationsCount \<ge> length gatheredMetrics
          then Inl (Error (invalidEvaluations invalidEvaluationsCount (length gatheredMetrics)
                             invalidEvaluationError))
          else Inr evaluation)"

text \<open>The target replica counts of the gathered metrics whose evaluation succeeds, in input
  order, and the messages of those whose evaluation returns an error: the terms in which
  the aggregation is specified.\<close>

definition successfulTargets :: "(Metric \<Rightarrow> failure + Evaluation) \<Rightarrow> Metric list \<Rightarrow> int list" where
  "successfulTargets getEv gatheredMetrics =
     List.map_filter
       (\<lambda>gatheredMetric. case getEv gatheredMetric of
                            Inr evaluation \<Rightarrow> Some (ev_TargetReplicas evaluation)
                          | Inl err \<Rightarrow> None)
       gatheredMetrics"

definition evaluationErrors :: "(Metric \<Rightarrow> failure + Evaluation) \<Rightarrow> Metric list \<Rightarrow> string list" where
  "evaluationErrors getEv gatheredMetrics =
     List.map_filter
       (\<lambda>gatheredMetric. case getEv gatheredMetric of
                            Inl (Error msg) \<Rightarrow> Some msg
                          | _ \<Rightarrow> None)
       gatheredMetrics"

text \<open>The target held by the variable \<^verbatim>\<open>evaluation\<close> of either facade after evaluations with
  the targets \<open>ts\<close>, in order, have succeeded: the greatest one seen.\<close>

fun runningMaximum :: "Evaluation option \<Rightarrow> int list \<Rightarrow> int option" where
  "runningMaximum evaluation [] = map_option ev_TargetReplicas evaluation"
| "runningMaximum evaluation (t # ts) =
     Some (fold max ts (case evaluation of None \<Rightarrow> t | Some current \<Rightarrow> max (ev_TargetReplicas current) t))"

section \<open>The gatherer facade (package metric)\<close>

text \<open>The \<^verbatim>\<open>metav1.Object\<close> handed to \<^verbatim>\<open>Gather.GetMetrics\<close>: its dynamic type, on which
  \<^verbatim>\<open>getReplicaCount\<close> switches (for any other type the name that \<^verbatim>\<open>%T\<close> prints), its
  labels, and the pointer \<^verbatim>\<open>Spec.Replicas\<close>.\<close>

datatype ObjectKind = Deployment | ReplicaSet | StatefulSet | ReplicationController | OtherKind string

record ScaleObject =
  obj_Kind :: ObjectKind
  obj_Labels :: "string \<rightharpoonup> string"
  obj_Replicas :: "int option"

definition getReplicaCount :: "ScaleObject \<Rightarrow> failure + int option" where
  "getReplicaCount resource =
     (case obj_Kind resource of
        Deployment \<Rightarrow> Inr (obj_Replicas resource)
      | ReplicaSet \<Rightarrow> Inr (obj_Replicas resource)
      | StatefulSet \<Rightarrow> Inr (obj_Replicas resource)
      | ReplicationController \<Rightarrow> Inr (obj_Replicas resource)
      | OtherKind typeName \<Rightarrow> Inl (Error (''Unsupported resource of type '' @ typeName)))"

text \<open>The loop of \<^verbatim>\<open>Gather.GetMetrics\<close> over the metric specs; the state is
  \<^verbatim>\<open>combinedMetrics\<close>, \<^verbatim>\<open>invalidMetricError\<close> and \<^verbatim>\<open>invalidMetricsCount\<close>.\<close>

fun Gather_loop ::
  "(MetricSpec \<Rightarrow> failure + Metric) \<Rightarrow> MetricSpec list \<Rightarrow> Metric list \<times> string option \<times> nat \<Rightarrow>
   failure + (Metric list \<times> string option \<times> nat)" where
  "Gather_loop getM [] state = Inr state"
| "Gather_loop getM (spec # rest) (combinedMetrics, invalidMetricError, invalidMetricsCount) =
     (case getM spec of
        Inl (Panic p) \<Rightarrow> Inl (Panic p)
      | Inl (Error err) \<Rightarrow>
          Gather_loop getM rest
            (combinedMetrics,
             (if invalidMetricsCount \<le> 0 then Some err else invalidMetricError),
             invalidMetricsCount + 1)
      | Inr metric \<Rightarrow>
          Gather_loop getM rest
            (combinedMetrics @ [metric], invalidMetricError, invalidMetricsCount))"

text \<open>\<^verbatim>\<open>Gather.GetMetrics\<close>. The method \<^verbatim>\<open>getMetric\<close> reaches the metrics client and the pod
  lister through the four gatherers; it is the parameter \<open>getMetric\<close>, called with the
  current replicas, the spec, the namespace and the selector made of the labels.\<close>

definition Gather_GetMetrics ::
  "(int \<Rightarrow> MetricSpec \<Rightarrow> string \<Rightarrow> (string \<rightharpoonup> string) \<Rightarrow> failure + Metric) \<Rightarrow> ScaleObject \<Rightarrow>
   MetricSpec list \<Rightarrow> string \<Rightarrow> failure + Metric list" where
  "Gather_GetMetrics getMetric resource specs namespace =
     (case getReplicaCount resource of
        Inl err \<Rightarrow> Inl err
      | Inr resourceReplicas \<Rightarrow>
          (let currentReplicas = (case resourceReplicas of None \<Rightarrow> 0 | Some replicas \<Rightarrow> replicas)
           in case Gather_loop
                     (\<lambda>spec. getMetric currentReplicas spec namespace (obj_Labels resource))
                     specs ([], None, 0) of
                Inl panic \<Rightarrow> Inl panic
              | Inr (combinedMetrics, invalidMetricError, invalidMetricsCount) \<Rightarrow>
                  if invalidMetricsCount \<ge> length specs
                  then Inl (Error (invalidMetrics invalidMetricsCount (length specs)
                                     invalidMetricError))
                  else Inr combinedMetrics))"

section \<open>The pod classifier (package metric)\<close>

text \<open>\<^verbatim>\<open>v1.Pod\<close>, reduced to what \<^verbatim>\<open>groupPods\<close> reads. Phases, condition types and
  condition statuses are Go strings; nil pointers are \<open>None\<close>.\<close>

record PodCondition =
  pc_Type :: string
  pc_Status :: string
  pc_LastTransitionTime :: time

record Pod =
  pod_Name :: string
  pod_DeletionTimestamp :: "time option"
  pod_Phase :: string
  pod_StartTime :: "time option"
  pod_Conditions :: "PodCondition list"

definition PodFailed :: string where "PodFailed = ''Failed''"
definition PodReady :: string where "PodReady = ''Ready''"
definition ConditionFalse :: string where "ConditionFalse = ''False''"
definition ResourceCPU :: string where "ResourceCPU = ''cpu''"

text \<open>Modelled from the spec: \<^verbatim>\<open>podutil.GetPodCondition\<close> is Kubernetes library code, not
  under src/. The specification speaks of the ready condition of a pod, which may be
  absent: the first condition of the requested type in the pod status.\<close>

definition GetPodCondition :: "Pod \<Rightarrow> string \<Rightarrow> PodCondition option" where
  "GetPodCondition pod conditionType = find (\<lambda>c. pc_Type c = conditionType) (pod_Conditions pod)"

text \<open>The value of the variable \<^verbatim>\<open>ignorePod\<close> in the body of \<^verbatim>\<open>groupPods\<close>, for a pod with
  sample \<open>metric\<close>. The reading of the clock \<^verbatim>\<open>time.Now()\<close> is the argument \<open>now\<close>.\<close>

definition ignorePod :: "time \<Rightarrow> Pod \<Rightarrow> PodMetric \<Rightarrow> duration \<Rightarrow> duration \<Rightarrow> bool" where
  "ignorePod now pod metric cpuInitializationPeriod delayOfInitialReadinessStatus =
     (case (GetPodCondition pod PodReady, pod_StartTime pod) of
        (Some condition, Some startTime) \<Rightarrow>
          if startTime + cpuInitializationPeriod > now then
            pc_Status condition = ConditionFalse
              \<or> pm_Timestamp metric < pc_LastTransitionTime condition + pm_Window metric
          else
            pc_Status condition = ConditionFalse
              \<and> startTime + delayOfInitialReadinessStatus > pc_LastTransitionTime condition
      | _ \<Rightarrow> True)"

text \<open>The loop of \<^verbatim>\<open>groupPods\<close>; the state is \<^verbatim>\<open>readyPodCount\<close>, \<^verbatim>\<open>ignoredPods\<close> and
  \<^verbatim>\<open>missingPods\<close>. One reading of the clock serves the whole call.\<close>

fun groupPods_loop ::
  "time \<Rightarrow> PodMetricsInfo \<Rightarrow> string \<Rightarrow> duration \<Rightarrow> duration \<Rightarrow> Pod list \<Rightarrow>
   int \<times> string fset \<times> string fset \<Rightarrow> int \<times> string fset \<times> string fset" where
  "groupPods_loop now metrics resource cpuInit delay [] state = state"
| "groupPods_loop now metrics resource cpuInit delay (pod # rest) (readyPodCount, ignoredPods, missingPods) =
     (if pod_DeletionTimestamp pod \<noteq> None \<or> pod_Phase pod = PodFailed then
        groupPods_loop now metrics resource cpuInit delay rest (readyPodCount, ignoredPods, missingPods)
      else
        (case metrics (pod_Name pod) of
           None \<Rightarrow>
             groupPods_loop now metrics resource cpuInit delay rest
               (readyPodCount, ignoredPods, finsert (pod_Name pod) missingPods)
         | Some metric \<Rightarrow>
             if resource = ResourceCPU \<and> ignorePod now pod metric cpuInit delay then
               groupPods_loop now metrics resource cpuInit delay rest
                 (readyPodCount, finsert (pod_Name pod) ignoredPods, missingPods)
             else
               groupPods_loop now metrics resource cpuInit delay rest
                 (readyPodCount + 1, ignoredPods, missingPods)))"

definition groupPods ::
  "time \<Rightarrow> Pod list \<Rightarrow> PodMetricsInfo \<Rightarrow> string \<Rightarrow> duration \<Rightarrow> duration \<Rightarrow> int \<times> string fset \<times> string fset" where
  "groupPods now pods metrics resource cpuInitializationPeriod delayOfInitialReadinessStatus =
     groupPods_loop now metrics resource cpuInitializationPeriod delayOfInitialReadinessStatus pods
       (0, {||}, {||})"

text \<open>The terms of the classifier's specification. A pod is counted when it is neither
  marked for deletion nor failed. The timing rule for CPU samples, in the words of the
  specification: no ready condition or no start time; or inside the initialization period
  and (not ready, or the sample older than the last transition plus one window); or past
  the period, not ready, and the last transition before the end of the initial readiness
  delay.\<close>

definition counted :: "Pod \<Rightarrow> bool" where
  "counted pod = (pod_DeletionTimestamp pod = None \<and> pod_Phase pod \<noteq> PodFailed)"

definition cpuTimingGated :: "time \<Rightarrow> Pod \<Rightarrow> PodMetric \<Rightarrow> duration \<Rightarrow> duration \<Rightarrow> bool" where
  "cpuTimingGated now pod metric cpuInit delay =
     (let ready = GetPodCondition pod PodReady;
          started = pod_StartTime pod
      in ready = None \<or> started = None
         \<or> (ready \<noteq> None \<and> started \<noteq> None
             \<and> the started + cpuInit > now
             \<and> (pc_Status (the ready) = ConditionFalse
                \<or> pm_Timestamp metric < pc_LastTransitionTime (the ready) + pm_Window metric))
         \<or> (ready \<noteq> None \<and> started \<noteq> None
             \<and> \<not> the started + cpuInit > now
             \<and> pc_Status (the ready) = ConditionFalse
             \<and> the started + delay > pc_LastTransitionTime (the ready)))"

text \<open>The three groups of the classifier, pod by pod: a counted pod without a sample is
  missing; a counted pod with a sample is ignored when the resource is CPU and the timing
  rule of the loop body holds; every other counted pod is ready.\<close>

definition isMissing :: "PodMetricsInfo \<Rightarrow> Pod \<Rightarrow> bool" where
  "isMissing metrics pod = (counted pod \<and> metrics (pod_Name pod) = None)"

definition isIgnored :: "time \<Rightarrow> PodMetricsInfo \<Rightarrow> string \<Rightarrow> duration \<Rightarrow> duration \<Rightarrow> Pod \<Rightarrow> bool" where
  "isIgnored now metrics resource cpuInit delay pod =
     (counted pod \<and> resource = ResourceCPU
      \<and> (case metrics (pod_Name pod) of None \<Rightarrow> False
          | Some metric \<Rightarrow> ignorePod now pod metric cpuInit delay))"

definition isReady :: "time \<Rightarrow> PodMetricsInfo \<Rightarrow> string \<Rightarrow> duration \<Rightarrow> duration \<Rightarrow> Pod \<Rightarrow> bool" where
  "isReady now metrics resource cpuInit delay pod =
     (counted pod \<and> metrics (pod_Name pod) \<noteq> None \<and> \<not> isIgnored now metrics resource cpuInit delay pod)"

section \<open>Example inputs\<close>

text \<open>Gathered metrics and pods on which the functions are run: a metric that only names
  its source type (for evaluators that ignore their argument), an object metric with a
  value target, a resource metric with a given target, object spec and measurement, two
  pods sampling 100 each, and a pod that is not marked for deletion.\<close>

definition metricOfType :: "string \<Rightarrow> int \<Rightarrow> Metric" where
  "metricOfType sourceType currentReplicas =
     \<lparr>m_CurrentReplicas = currentReplicas,
      m_Spec = \<lparr>ms_Type = sourceType, ms_Object = None, ms_Pods = None, ms_Resource = None,
                ms_External = None\<rparr>,
      m_Resource = None, m_Pods = None, m_Object = None, m_External = None\<rparr>"

definition objectValueMetric :: "int \<Rightarrow> int \<Rightarrow> int \<Rightarrow> int \<Rightarrow> Metric" where
  "objectValueMetric currentReplicas utilization targetValue readyPodCount =
     \<lparr>m_CurrentReplicas = currentReplicas,
      m_Spec = \<lparr>ms_Type = ObjectMetricSourceType,
                ms_Object = Some \<lparr>src_Name = ''hits'',
                  src_Target = \<lparr>mt_Type = ValueMetricType, mt_Value = Some targetValue,
                                 mt_AverageValue = None, mt_AverageUtilization = None\<rparr>\<rparr>,
                ms_Pods = None, ms_Resource = None, ms_External = None\<rparr>,
      m_Resource = None, m_Pods = None,
      m_Object = Some \<lparr>ob_Utilization = utilization, ob_ReadyPodCount = Some readyPodCount,
                       ob_Timestamp = 0\<rparr>,
      m_External = None\<rparr>"

definition resourceMetric :: "int \<Rightarrow> MetricTarget \<Rightarrow> MetricSource option \<Rightarrow> ResourceMetric option \<Rightarrow> Metric" where
  "resourceMetric currentReplicas target specObject resource =
     \<lparr>m_CurrentReplicas = currentReplicas,
      m_Spec = \<lparr>ms_Type = ResourceMetricSourceType, ms_Object = specObject, ms_Pods = None,
                ms_Resource = Some \<lparr>src_Name = ''cpu'', src_Target = target\<rparr>,
                ms_External = None\<rparr>,
      m_Resource = resource, m_Pods = None, m_Object = None, m_External = None\<rparr>"

definition noTarget :: MetricTarget where
  "noTarget = \<lparr>mt_Type = [], mt_Value = None, mt_AverageValue = None, mt_AverageUtilization = None\<rparr>"

definition averageValueTarget :: "int \<Rightarrow> MetricTarget" where
  "averageValueTarget v = \<lparr>mt_Type = AverageValueMetricType, mt_Value = None, mt_AverageValue = Some v,
      mt_AverageUtilization = None\<rparr>"

definition twoPods :: ResourceMetric where
  "twoPods = \<lparr>rm_PodMetricsInfo = [''pod-1'' \<mapsto> PodMetricValue 100, ''pod-2'' \<mapsto> PodMetricValue 100],
      rm_Requests = Map.empty, rm_ReadyPodCount = 2, rm_IgnoredPods = {||}, rm_MissingPods = {||},
      rm_TotalPods = 2, rm_Timestamp = 0\<rparr>"

definition examplePod :: "string \<Rightarrow> string \<Rightarrow> time option \<Rightarrow> PodCondition list \<Rightarrow> Pod" where
  "examplePod podName phase startTime conditions =
     \<lparr>pod_Name = podName, pod_DeletionTimestamp = None, pod_Phase = phase,
      pod_StartTime = startTime, pod_Conditions = conditions\<rparr>"

definition readyCondition :: "string \<Rightarrow> time \<Rightarrow> PodCondition" where
  "readyCondition status lastTransitionTime =
     \<lparr>pc_Type = PodReady, pc_Status = status, pc_LastTransitionTime = lastTransitionTime\<rparr>"

section \<open>Auxiliary facts\<close>

lemma dom_setMetrics: "dom (setMetrics metrics pods v) = dom metrics \<union> fset pods"
  by (auto simp: setMetrics_def split: if_splits)

lemma setMetrics_empty: "setMetrics metrics {||} v = metrics"
  by (simp add: setMetrics_def)

lemma setMetrics_finsert:
  "setMetrics metrics (finsert k pods) v = (setMetrics metrics pods v)(k \<mapsto> PodMetricValue (v k))"
  by (auto simp: setMetrics_def)

lemma fcard_pos_iff: "0 < fcard A \<longleftrightarrow> A \<noteq> {||}"
  using fcard_0_eq [of A] by (simp del: fcard_0_eq add: neq0_conv [symmetric])

subsection \<open>Evaluation of the machine arithmetic\<close>

lemma f64_exponent_up:
  "0 < fuel \<Longrightarrow> 2 \<le> x \<Longrightarrow> f64_exponent fuel x = f64_exponent (fuel - 1) (x / 2) + 1"
  by (cases fuel) simp_all

lemma f64_exponent_down:
  "0 < fuel \<Longrightarrow> x < 1 \<Longrightarrow> f64_exponent fuel x = f64_exponent (fuel - 1) (x * 2) - 1"
  by (cases fuel) simp_all

lemma f64_exponent_stop:
  "0 < fuel \<Longrightarrow> 1 \<le> x \<Longrightarrow> x < 2 \<Longrightarrow> f64_exponent fuel x = 0"
  by (cases fuel) simp_all

lemmas eval_f64 = round64_def pow2_def roundToEven_def f64_of_int_def f64_le_def
  withinTolerance_def Let_def f64_exponent_up f64_exponent_down f64_exponent_stop
  wrap64_def wrap32_def go_quot_def

lemma defaultTolerance_eq: "defaultTolerance = Finite (3602879701896397 / 36028797018963968)"
  by (simp add: defaultTolerance_def eval_f64)

text \<open>Rounding to nearest, and to the even significand from half-way: above \<open>2^53\<close> the
  \<^verbatim>\<open>float64\<close> values are the even integers, next to 1 they are \<open>2^(-52)\<close> apart.\<close>

lemma round64_examples:
  "round64 (1/10) = Finite (3602879701896397 / 36028797018963968)
   \<and> round64 (9007199254740993) = Finite 9007199254740992
   \<and> round64 (9007199254740995) = Finite 9007199254740996
   \<and> round64 (- 9007199254740993) = Finite (- 9007199254740992)
   \<and> round64 (1 + 1 / 2 ^ 53) = Finite 1
   \<and> round64 (1 + 3 / 2 ^ 53) = Finite (1 + 1 / 2 ^ 51)"
  by (simp add: eval_f64)

lemmas eval_plain = getPlainMetricReplicaCount_def GetMetricUtilizationRatio_def
  len_metrics_def PodMetricValue_def setMetrics_finsert setMetrics_empty fcard_finsert_if
  fcard_fempty defaultTolerance_eq eval_f64

lemmas eval_utilization = Resource_GetEvaluation_def averageUtilizationReplicas_def
  GetResourceUtilizationRatio_def

lemma int32_of_ceiling:
  "- 2147483648 \<le> \<lceil>y\<rceil> \<Longrightarrow> \<lceil>y\<rceil> < 2147483648 \<Longrightarrow> int32_of_f64 (f64_ceil (Finite y)) = \<lceil>y\<rceil>"
  by (simp add: Let_def)

lemma round64_0: "round64 0 = Finite 0"
  by (simp add: eval_f64)

lemma withinTolerance_one:
  "f64_le (Finite 0) tol \<Longrightarrow> withinTolerance tol (Finite 1)"
  by (simp add: withinTolerance_def round64_0)

subsection \<open>The replica calculations\<close>

text \<open>With a sample map that is not empty the library function returns a usage ratio; on
  the empty map it panics, and so does the plain-metric calculation.\<close>

lemma usage_ratio_returns:
  "finite (dom metrics) \<Longrightarrow> metrics \<noteq> Map.empty \<Longrightarrow> \<exists>u. GetMetricUtilizationRatio metrics T = Inr u"
  by (simp add: GetMetricUtilizationRatio_def len_metrics_def Let_def)

lemma empty_map_panics:
  "getPlainMetricReplicaCount GetMetricUtilizationRatio tol Map.empty C T R {||} {||}
     = Inl IntegerDivideByZero"
  by (simp add: getPlainMetricReplicaCount_def GetMetricUtilizationRatio_def len_metrics_def)

text \<open>Where the \<^verbatim>\<open>float64\<close> operations are exact and the ceilings are in the range of
  \<^verbatim>\<open>int32\<close>, the two calculations return the ceilings of the exact values.\<close>

lemma usage_ratio_replica_count_exact:
  assumes "f64_of_int P = Finite (of_int P)"
    and "round64 (1 - x) = Finite (1 - x)"
    and "round64 (x * of_int P) = Finite (x * of_int P)"
    and "- 2147483648 \<le> \<lceil>x\<rceil>" and "\<lceil>x\<rceil> < 2147483648"
    and "- 2147483648 \<le> \<lceil>x * of_int P\<rceil>" and "\<lceil>x * of_int P\<rceil> < 2147483648"
  shows "getUsageRatioReplicaCount (Finite t) C (Finite x) P =
           (if C = 0 then \<lceil>x\<rceil> else if \<bar>1 - x\<bar> \<le> t then C else \<lceil>x * of_int P\<rceil>)"
  using assms
  by (auto simp: getUsageRatioReplicaCount_def withinTolerance_def f64_le_def Let_def)

lemma plain_metric_no_correction_exact:
  assumes "ratio metrics T = Inr (Finite x)"
    and "missingPods = {||}"
    and "ignoredPods = {||} \<or> x \<le> 1"
    and "f64_of_int R = Finite (of_int R)"
    and "round64 (1 - x) = Finite (1 - x)"
    and "round64 (x * of_int R) = Finite (x * of_int R)"
    and "- 2147483648 \<le> \<lceil>x * of_int R\<rceil>" and "\<lceil>x * of_int R\<rceil> < 2147483648"
  shows "getPlainMetricReplicaCount ratio (Finite t) metrics C T R missingPods ignoredPods =
           Inr (if \<bar>1 - x\<bar> \<le> t then C else \<lceil>x * of_int R\<rceil>, metrics)"
proof -
  have "\<not> (fcard ignoredPods > 0 \<and> f64_lt (Finite 1) (Finite x))"
    using assms(3) by (auto simp: fcard_fempty)
  then show ?thesis
    using assms(1,2,4-)
    by (auto simp: getPlainMetricReplicaCount_def withinTolerance_def f64_le_def Let_def
          fcard_fempty)
qed

text \<open>What the correction step of the plain-metric calculation writes: the target for every
  missing pod when \<open>u < 1\<close>, zero for every missing pod otherwise, zero for every ignored
  pod when the ignored pods are rebalanced, and nothing else.\<close>

lemma plain_metric_fill_in:
  assumes "ratio m T = Inr u"
    and "getPlainMetricReplicaCount ratio tol m C T R M I = Inr (r, m')"
  shows "m' podName =
     (if fcard I > 0 \<and> f64_lt (Finite 1) u \<and> podName |\<in>| I then Some (PodMetricValue 0)
      else if podName |\<in>| M then Some (PodMetricValue (if f64_lt u (Finite 1) then T else 0))
      else m podName)"
  using assms
  by (auto simp: getPlainMetricReplicaCount_def Let_def setMetrics_def fcard_pos_iff
        split: if_splits sum.splits)

subsection \<open>The direction-flip guard\<close>

text \<open>When the correction step runs and the base ratio and the recomputed ratio lie on
  opposite sides of 1, both calculations return the current replicas.\<close>

lemma plain_direction_flip_guard:
  assumes "ratio m T = Inr u"
    and "getPlainMetricReplicaCount ratio tol m C T R M I = Inr (r, m')"
    and "ratio m' T = Inr u'"
    and "fcard M > 0 \<or> (fcard I > 0 \<and> f64_lt (Finite 1) u)"
    and "(f64_lt u (Finite 1) \<and> f64_lt (Finite 1) u') \<or> (f64_lt (Finite 1) u \<and> f64_lt u' (Finite 1))"
  shows "r = C"
proof -
  have run: "\<not> (\<not> (fcard I > 0 \<and> f64_lt (Finite 1) u) \<and> fcard M = 0)"
    using assms(4) by (auto simp: fcard_pos_iff)
  show ?thesis
    using assms(1,2,3,5) run
    by (auto simp: getPlainMetricReplicaCount_def Let_def split: if_splits sum.splits)
qed

lemma utilization_direction_flip_guard:
  assumes "uratio (rm_PodMetricsInfo rm) (rm_Requests rm) t = Inr u"
    and "averageUtilizationReplicas uratio tol C t rm = Inr (ev, m')"
    and "uratio m' (rm_Requests rm) t = Inr u'"
    and "fcard (rm_MissingPods rm) > 0 \<or> (fcard (rm_IgnoredPods rm) > 0 \<and> f64_lt (Finite 1) u)"
    and "(f64_lt u (Finite 1) \<and> f64_lt (Finite 1) u') \<or> (f64_lt (Finite 1) u \<and> f64_lt u' (Finite 1))"
  shows "ev_TargetReplicas ev = C"
proof -
  have run: "\<not> (\<not> (fcard (rm_IgnoredPods rm) > 0 \<and> f64_lt (Finite 1) u) \<and> fcard (rm_MissingPods rm) = 0)"
    using assms(4) by (auto simp: fcard_pos_iff)
  show ?thesis
    using assms(1,2,3,5) run
    by (auto simp: averageUtilizationReplicas_def Let_def split: if_splits sum.splits)
qed

text \<open>With the signs of \<open>1 - u\<close> and \<open>1 - u'\<close> in \<open>{-1, 0, 1}\<close> and a tolerance that is not
  negative, a difference of the signs gives the current replicas: in the plain-metric
  calculation for a base ratio other than 1, in the utilization mode for every base ratio
  (at \<open>u = 1\<close> it inserts nothing, so that \<open>u' = u\<close>).\<close>

lemma plain_direction_flip_sgn:
  assumes "ratio m T = Inr (Finite x)"
    and "getPlainMetricReplicaCount ratio tol m C T R M I = Inr (r, m')"
    and "ratio m' T = Inr (Finite x')"
    and "fcard M > 0 \<or> (fcard I > 0 \<and> 1 < x)"
    and "sgn (1 - x) \<noteq> sgn (1 - x')"
    and "x \<noteq> 1"
    and "f64_le (Finite 0) tol"
  shows "r = C"
proof -
  have run: "\<not> (\<not> (fcard I > 0 \<and> 1 < x) \<and> fcard M = 0)"
    using assms(4) by (auto simp: fcard_pos_iff)
  have one: "x' = 1 \<Longrightarrow> withinTolerance tol (Finite x')"
    using withinTolerance_one [OF assms(7)] by simp
  consider "x < 1" | "1 < x" using assms(6) by linarith
  then show ?thesis
  proof cases
    case 1
    then have "1 \<le> x'" using assms(5) by (auto simp: sgn_if split: if_splits)
    then show ?thesis
      using assms(1,2,3) run 1 one
      by (cases "x' = 1") (auto simp: getPlainMetricReplicaCount_def Let_def split: if_splits sum.splits)
  next
    case 2
    then have "x' \<le> 1" using assms(5) by (auto simp: sgn_if split: if_splits)
    then show ?thesis
      using assms(1,2,3) run 2 one
      by (cases "x' = 1") (auto simp: getPlainMetricReplicaCount_def Let_def split: if_splits sum.splits)
  qed
qed

lemma utilization_direction_flip_sgn:
  assumes "uratio (rm_PodMetricsInfo rm) (rm_Requests rm) t = Inr (Finite x)"
    and "averageUtilizationReplicas uratio tol C t rm = Inr (ev, m')"
    and "uratio m' (rm_Requests rm) t = Inr (Finite x')"
    and "fcard (rm_MissingPods rm) > 0 \<or> (fcard (rm_IgnoredPods rm) > 0 \<and> 1 < x)"
    and "sgn (1 - x) \<noteq> sgn (1 - x')"
    and "f64_le (Finite 0) tol"
  shows "ev_TargetReplicas ev = C"
proof -
  have run: "\<not> (\<not> (fcard (rm_IgnoredPods rm) > 0 \<and> 1 < x) \<and> fcard (rm_MissingPods rm) = 0)"
    using assms(4) by (auto simp: fcard_pos_iff)
  have one: "x' = 1 \<Longrightarrow> withinTolerance tol (Finite x')"
    using withinTolerance_one [OF assms(6)] by simp
  consider "x < 1" | "x = 1" | "1 < x" by linarith
  then show ?thesis
  proof cases
    case 1
    then have "1 \<le> x'" using assms(5) by (auto simp: sgn_if split: if_splits)
    then show ?thesis
      using assms(1,2,3) run 1 one
      by (cases "x' = 1") (auto simp: averageUtilizationReplicas_def Let_def split: if_splits sum.splits)
  next
    case 2
    then have m: "m' = rm_PodMetricsInfo rm"
      using assms(1,2) run
      by (auto simp: averageUtilizationReplicas_def Let_def split: if_splits sum.splits)
    with assms(1,3) 2 have "x' = 1" by simp
    with 2 assms(5) show ?thesis by simp
  next
    case 3
    then have "x' \<le> 1" using assms(5) by (auto simp: sgn_if split: if_splits)
    then show ?thesis
      using assms(1,2,3) run 3 one
      by (cases "x' = 1") (auto simp: averageUtilizationReplicas_def Let_def split: if_splits sum.splits)
  qed
qed

text \<open>Two flips caught by the guard. Plain-metric: a sample of 30 against a target of 20
  gives \<open>u = 3/2\<close>; the missing pod filled with 0 gives \<open>u' = 3/4\<close>; the three current
  replicas are kept. Utilization mode: a sample of 30 on a request of 10 against a target
  of 100 percent gives \<open>u = 3\<close>; the missing pod, with a request of 40, filled with 0 gives
  60 percent and for \<open>u'\<close> the \<^verbatim>\<open>float64\<close> nearest to \<open>3/5\<close>; the four current replicas are
  kept.\<close>

lemma direction_flip_examples:
  "GetMetricUtilizationRatio [''pod-1'' \<mapsto> PodMetricValue 30] 20 = Inr (Finite (3/2))
   \<and> GetMetricUtilizationRatio [''pod-1'' \<mapsto> PodMetricValue 30, ''pod-2'' \<mapsto> PodMetricValue 0] 20
      = Inr (Finite (3/4))
   \<and> getPlainMetricReplicaCount GetMetricUtilizationRatio defaultTolerance
        [''pod-1'' \<mapsto> PodMetricValue 30] 3 20 1 {|''pod-2''|} {||}
      = Inr (3, [''pod-1'' \<mapsto> PodMetricValue 30, ''pod-2'' \<mapsto> PodMetricValue 0])
   \<and> GetResourceUtilizationRatio [''pod-1'' \<mapsto> PodMetricValue 30]
        [''pod-1'' \<mapsto> 10, ''pod-2'' \<mapsto> 40] 100 = Inr (Finite 3)
   \<and> GetResourceUtilizationRatio [''pod-1'' \<mapsto> PodMetricValue 30, ''pod-2'' \<mapsto> PodMetricValue 0]
        [''pod-1'' \<mapsto> 10, ''pod-2'' \<mapsto> 40] 100
      = Inr (Finite (5404319552844595 / 9007199254740992))
   \<and> averageUtilizationReplicas GetResourceUtilizationRatio defaultTolerance 4 100
        \<lparr>rm_PodMetricsInfo = [''pod-1'' \<mapsto> PodMetricValue 30],
         rm_Requests = [''pod-1'' \<mapsto> 10, ''pod-2'' \<mapsto> 40],
         rm_ReadyPodCount = 1, rm_IgnoredPods = {||},
         rm_MissingPods = {|''pod-2''|}, rm_TotalPods = 2, rm_Timestamp = 0\<rparr>
      = Inr (\<lparr>ev_TargetReplicas = 4\<rparr>,
             [''pod-1'' \<mapsto> PodMetricValue 30, ''pod-2'' \<mapsto> PodMetricValue 0])"
  by (simp add: eval_plain eval_utilization)

subsection \<open>The loops of the facades\<close>

lemma show_nat_0: "show_nat 0 = ''0''"
  by (simp add: show_nat.simps [of 0] digit_def)

lemma successfulTargets_Nil: "successfulTargets getEv [] = []"
  by (simp add: successfulTargets_def map_filter_simps)

lemma successfulTargets_Cons:
  "successfulTargets getEv (gm # gms) =
     (case getEv gm of Inr ev \<Rightarrow> ev_TargetReplicas ev # successfulTargets getEv gms
                     | Inl err \<Rightarrow> successfulTargets getEv gms)"
  by (simp add: successfulTargets_def map_filter_simps split: sum.splits)

lemma evaluationErrors_Nil: "evaluationErrors getEv [] = []"
  by (simp add: evaluationErrors_def map_filter_simps)

lemma evaluationErrors_Cons:
  "evaluationErrors getEv (gm # gms) =
     (case getEv gm of Inl (Error msg) \<Rightarrow> msg # evaluationErrors getEv gms
                     | _ \<Rightarrow> evaluationErrors getEv gms)"
  by (simp add: evaluationErrors_def map_filter_simps split: sum.splits failure.splits)

lemma Evaluate_loop_Inr:
  "Evaluate_loop getEv gms (evaluation, invErr, cnt) = Inr (evaluation', invErr', cnt') \<Longrightarrow>
     map_option ev_TargetReplicas evaluation' = runningMaximum evaluation (successfulTargets getEv gms)
     \<and> cnt' = cnt + length (evaluationErrors getEv gms)
     \<and> invErr' = (if cnt = 0 \<and> evaluationErrors getEv gms \<noteq> []
                   then Some (hd (evaluationErrors getEv gms)) else invErr)
     \<and> length gms = length (successfulTargets getEv gms) + length (evaluationErrors getEv gms)"
proof (induction gms arbitrary: evaluation invErr cnt)
  case Nil
  then show ?case by (simp add: successfulTargets_Nil evaluationErrors_Nil)
next
  case (Cons gm gms)
  show ?case
  proof (cases "getEv gm")
    case (Inl f)
    show ?thesis
    proof (cases f)
      case (Error msg)
      with Inl Cons.prems
      have "Evaluate_loop getEv gms (evaluation, (if cnt \<le> 0 then Some msg else invErr), cnt + 1)
              = Inr (evaluation', invErr', cnt')" by simp
      from Cons.IH [OF this] Inl Error show ?thesis
        by (auto simp: successfulTargets_Cons evaluationErrors_Cons)
    next
      case (Panic p)
      with Inl Cons.prems show ?thesis by simp
    qed
  next
    case (Inr proposed)
    show ?thesis
    proof (cases evaluation)
      case None
      with Inr Cons.prems
      have "Evaluate_loop getEv gms (Some proposed, invErr, cnt) = Inr (evaluation', invErr', cnt')"
        by simp
      from Cons.IH [OF this] Inr None show ?thesis
        by (cases "successfulTargets getEv gms")
           (auto simp: successfulTargets_Cons evaluationErrors_Cons max.commute)
    next
      case (Some current)
      show ?thesis
      proof (cases "ev_TargetReplicas proposed > ev_TargetReplicas current")
        case True
        with Inr Some Cons.prems
        have "Evaluate_loop getEv gms (Some proposed, invErr, cnt) = Inr (evaluation', invErr', cnt')"
          by simp
        from Cons.IH [OF this] Inr Some True show ?thesis
          by (cases "successfulTargets getEv gms")
             (auto simp: successfulTargets_Cons evaluationErrors_Cons max_def)
      next
        case False
        with Inr Some Cons.prems
        have "Evaluate_loop getEv gms (Some current, invErr, cnt) = Inr (evaluation', invErr', cnt')"
          by simp
        from Cons.IH [OF this] Inr Some False show ?thesis
          by (cases "successfulTargets getEv gms")
             (auto simp: successfulTargets_Cons evaluationErrors_Cons max_def)
      qed
    qed
  qed
qed


lemma lengths_le:
  "length (successfulTargets getEv gms) + length (evaluationErrors getEv gms) \<le> length gms"
  by (induction gms)
     (auto simp: successfulTargets_Nil evaluationErrors_Nil successfulTargets_Cons
        evaluationErrors_Cons split: sum.splits failure.splits)

lemma all_errors_iff:
  "(\<forall>gm \<in> set gms. \<exists>msg. getEv gm = Inl (Error msg))
     \<longleftrightarrow> length (evaluationErrors getEv gms) = length gms"
proof (induction gms)
  case Nil
  show ?case by (simp add: evaluationErrors_Nil)
next
  case (Cons gm gms)
  have le: "length (evaluationErrors getEv gms) \<le> length gms"
    using lengths_le [of getEv gms] by simp
  show ?case
    using Cons.IH le
    by (auto simp: evaluationErrors_Cons split: sum.splits failure.splits)
qed

lemma hd_evaluationErrors:
  "getEv gm = Inl (Error msg) \<Longrightarrow> hd (evaluationErrors getEv (gm # gms)) = msg"
  by (simp add: evaluationErrors_Cons)

lemma Evaluate_loop_Inl:
  "Evaluate_loop getEv gms state = Inl f \<Longrightarrow>
     \<exists>p. f = Panic p \<and> (\<exists>gm \<in> set gms. getEv gm = Inl (Panic p))"
proof (induction gms arbitrary: state)
  case Nil
  then show ?case by simp
next
  case (Cons gm gms)
  obtain evaluation invErr cnt where st: "state = (evaluation, invErr, cnt)"
    by (cases state) auto
  from Cons.prems Cons.IH show ?case
    unfolding st
    by (auto split: sum.splits failure.splits option.splits if_splits)
qed

lemma Evaluate_loop_total:
  assumes "\<forall>gm \<in> set gms. \<forall>p. getEv gm \<noteq> Inl (Panic p)"
  shows "\<exists>evaluation invErr cnt. Evaluate_loop getEv gms state = Inr (evaluation, invErr, cnt)"
proof (cases "Evaluate_loop getEv gms state")
  case (Inl f)
  from Evaluate_loop_Inl [OF Inl] assms show ?thesis by blast
next
  case (Inr state')
  then show ?thesis by (cases state') simp
qed

lemma runningMaximum_None: "ts \<noteq> [] \<Longrightarrow> runningMaximum None ts = Some (Max (set ts))"
proof (cases ts)
  case Nil
  assume "ts \<noteq> []"
  with Nil show ?thesis by simp
next
  case (Cons t ts')
  then show ?thesis using Max.set_eq_fold [of t ts'] by simp
qed

lemma Evaluate_GetEvaluation_cases:
  "Evaluate_GetEvaluation e gms =
     (case Evaluate_loop (\<lambda>gm. Evaluate_getEvaluation e (m_CurrentReplicas gm) gm) gms (None, None, 0) of
        Inl panic \<Rightarrow> Inl panic
      | Inr (evaluation, invErr, cnt) \<Rightarrow>
          if cnt \<ge> length gms then Inl (Error (invalidEvaluations cnt (length gms) invErr))
          else Inr evaluation)"
  by (simp add: Evaluate_GetEvaluation_def)

lemma Evaluate_max:
  assumes "Evaluate_GetEvaluation e gms = Inr r"
  shows "successfulTargets (\<lambda>gm. Evaluate_getEvaluation e (m_CurrentReplicas gm) gm) gms \<noteq> []
         \<and> (\<exists>ev. r = Some ev \<and> ev_TargetReplicas ev =
               Max (set (successfulTargets (\<lambda>gm. Evaluate_getEvaluation e (m_CurrentReplicas gm) gm) gms)))"
proof -
  let ?getEv = "\<lambda>gm. Evaluate_getEvaluation e (m_CurrentReplicas gm) gm"
  from assms obtain invErr cnt where
    loop: "Evaluate_loop ?getEv gms (None, None, 0) = Inr (r, invErr, cnt)"
    and lt: "\<not> cnt \<ge> length gms"
    by (auto simp: Evaluate_GetEvaluation_cases split: sum.splits if_splits)
  from Evaluate_loop_Inr [OF loop]
  have p: "map_option ev_TargetReplicas r = runningMaximum None (successfulTargets ?getEv gms)"
    and c: "cnt = length (evaluationErrors ?getEv gms)"
    and l: "length gms = length (successfulTargets ?getEv gms) + length (evaluationErrors ?getEv gms)"
    by simp_all
  from lt c l have ne: "successfulTargets ?getEv gms \<noteq> []" by auto
  with p runningMaximum_None [OF ne] show ?thesis by auto
qed

lemma Evaluate_skips_errors:
  assumes "\<forall>gm \<in> set gms. \<forall>p. Evaluate_getEvaluation e (m_CurrentReplicas gm) gm \<noteq> Inl (Panic p)"
    and "successfulTargets (\<lambda>gm. Evaluate_getEvaluation e (m_CurrentReplicas gm) gm) gms \<noteq> []"
  shows "\<exists>ev. Evaluate_GetEvaluation e gms = Inr (Some ev)"
proof -
  let ?getEv = "\<lambda>gm. Evaluate_getEvaluation e (m_CurrentReplicas gm) gm"
  from Evaluate_loop_total [of gms ?getEv "(None, None, 0)"] assms(1)
  obtain r invErr cnt where loop: "Evaluate_loop ?getEv gms (None, None, 0) = Inr (r, invErr, cnt)"
    by blast
  from Evaluate_loop_Inr [OF loop]
  have c: "cnt = length (evaluationErrors ?getEv gms)"
    and l: "length gms = length (successfulTargets ?getEv gms) + length (evaluationErrors ?getEv gms)"
    by simp_all
  with assms(2) have "\<not> cnt \<ge> length gms" by auto
  with loop have res: "Evaluate_GetEvaluation e gms = Inr r"
    by (simp add: Evaluate_GetEvaluation_cases)
  from Evaluate_max [OF res] show ?thesis using res by auto
qed

lemma Evaluate_failure_policy:
  "(\<exists>msg. Evaluate_GetEvaluation e gms = Inl (Error msg))
     \<longleftrightarrow> (\<forall>gm \<in> set gms. \<exists>msg. Evaluate_getEvaluation e (m_CurrentReplicas gm) gm = Inl (Error msg))"
  (is "?L \<longleftrightarrow> ?R")
proof
  let ?getEv = "\<lambda>gm. Evaluate_getEvaluation e (m_CurrentReplicas gm) gm"
  assume ?L
  then obtain r invErr cnt where
    loop: "Evaluate_loop ?getEv gms (None, None, 0) = Inr (r, invErr, cnt)"
    and ge: "cnt \<ge> length gms"
    by (auto simp: Evaluate_GetEvaluation_cases split: sum.splits if_splits dest: Evaluate_loop_Inl)
  from Evaluate_loop_Inr [OF loop]
  have c: "cnt = length (evaluationErrors ?getEv gms)"
    and l: "length gms = length (successfulTargets ?getEv gms) + length (evaluationErrors ?getEv gms)"
    by simp_all
  with ge have "length (evaluationErrors ?getEv gms) = length gms" by simp
  then show ?R using all_errors_iff [of gms ?getEv] by simp
next
  let ?getEv = "\<lambda>gm. Evaluate_getEvaluation e (m_CurrentReplicas gm) gm"
  assume r: ?R
  then have "\<forall>gm \<in> set gms. \<forall>p. ?getEv gm \<noteq> Inl (Panic p)" by auto
  from Evaluate_loop_total [OF this, of "(None, None, 0)"]
  obtain r' invErr cnt where loop: "Evaluate_loop ?getEv gms (None, None, 0) = Inr (r', invErr, cnt)"
    by blast
  from Evaluate_loop_Inr [OF loop]
  have c: "cnt = length (evaluationErrors ?getEv gms)" by simp
  from r have "length (evaluationErrors ?getEv gms) = length gms"
    using all_errors_iff [of gms ?getEv] by simp
  with c loop show ?L by (simp add: Evaluate_GetEvaluation_cases)
qed

lemma Evaluate_failure_message:
  assumes "Evaluate_GetEvaluation e (gm # gms) = Inl (Error msg)"
  shows "\<exists>first. Evaluate_getEvaluation e (m_CurrentReplicas gm) gm = Inl (Error first)
           \<and> msg = ''invalid evaluations ('' @ show_nat (length (gm # gms)) @ '' invalid out of ''
                    @ show_nat (length (gm # gms)) @ ''), first error is: '' @ first"
proof -
  let ?getEv = "\<lambda>gm. Evaluate_getEvaluation e (m_CurrentReplicas gm) gm"
  from assms have all: "\<forall>x \<in> set (gm # gms). \<exists>msg. ?getEv x = Inl (Error msg)"
    using Evaluate_failure_policy [of e "gm # gms"] by blast
  then obtain first where f: "?getEv gm = Inl (Error first)" by auto
  from all have len: "length (evaluationErrors ?getEv (gm # gms)) = length (gm # gms)"
    using all_errors_iff [of "gm # gms" ?getEv] by simp
  from assms obtain r invErr cnt where
    loop: "Evaluate_loop ?getEv (gm # gms) (None, None, 0) = Inr (r, invErr, cnt)"
    and m: "msg = invalidEvaluations cnt (length (gm # gms)) invErr"
    by (auto simp: Evaluate_GetEvaluation_cases simp del: Evaluate_loop.simps
          split: sum.splits if_splits dest: Evaluate_loop_Inl)
  from Evaluate_loop_Inr [OF loop]
  have c: "cnt = length (evaluationErrors ?getEv (gm # gms))"
    and i: "invErr = (if evaluationErrors ?getEv (gm # gms) \<noteq> []
                      then Some (hd (evaluationErrors ?getEv (gm # gms))) else None)"
    by simp_all
  from len have ne: "evaluationErrors ?getEv (gm # gms) \<noteq> []" by auto
  from i ne hd_evaluationErrors [of ?getEv gm first gms] f have "invErr = Some first" by simp
  with m c len f show ?thesis
    by (simp add: invalidEvaluations_def show_error_def)
qed

lemma Evaluator_loop_Inr:
  "Evaluator_loop getEv gms evaluation = Inr evaluation' \<Longrightarrow>
     map_option ev_TargetReplicas evaluation' = runningMaximum evaluation (successfulTargets getEv gms)
     \<and> length (successfulTargets getEv gms) = length gms"
proof (induction gms arbitrary: evaluation)
  case Nil
  then show ?case by (simp add: successfulTargets_Nil)
next
  case (Cons gm gms)
  show ?case
  proof (cases "getEv gm")
    case (Inl f)
    with Cons.prems show ?thesis by simp
  next
    case (Inr proposed)
    show ?thesis
    proof (cases evaluation)
      case None
      with Inr Cons.prems
      have "Evaluator_loop getEv gms (Some proposed) = Inr evaluation'" by simp
      from Cons.IH [OF this] Inr None show ?thesis
        by (cases "successfulTargets getEv gms") (auto simp: successfulTargets_Cons max.commute)
    next
      case (Some current)
      show ?thesis
      proof (cases "ev_TargetReplicas proposed > ev_TargetReplicas current")
        case True
        with Inr Some Cons.prems
        have "Evaluator_loop getEv gms (Some proposed) = Inr evaluation'" by simp
        from Cons.IH [OF this] Inr Some True show ?thesis
          by (cases "successfulTargets getEv gms") (auto simp: successfulTargets_Cons max_def)
      next
        case False
        with Inr Some Cons.prems
        have "Evaluator_loop getEv gms (Some current) = Inr evaluation'" by simp
        from Cons.IH [OF this] Inr Some False show ?thesis
          by (cases "successfulTargets getEv gms") (auto simp: successfulTargets_Cons max_def)
      qed
    qed
  qed
qed

lemma Evaluator_max:
  assumes "Evaluator_GetEvaluation ratio uratio tol gms = Inr r"
  shows "successfulTargets (\<lambda>gm. Evaluator_getEvaluation ratio uratio tol (m_CurrentReplicas gm) gm) gms \<noteq> []
         \<and> (\<exists>ev. r = Some ev \<and> ev_TargetReplicas ev =
               Max (set (successfulTargets
                      (\<lambda>gm. Evaluator_getEvaluation ratio uratio tol (m_CurrentReplicas gm) gm) gms)))"
proof -
  let ?getEv = "\<lambda>gm. Evaluator_getEvaluation ratio uratio tol (m_CurrentReplicas gm) gm"
  from assms have loop: "Evaluator_loop ?getEv gms None = Inr r" and ne: "gms \<noteq> []"
    by (auto simp: Evaluator_GetEvaluation_def Let_def split: sum.splits if_splits)
  from Evaluator_loop_Inr [OF loop]
  have p: "map_option ev_TargetReplicas r = runningMaximum None (successfulTargets ?getEv gms)"
    and l: "length (successfulTargets ?getEv gms) = length gms"
    by simp_all
  from l ne have ne': "successfulTargets ?getEv gms \<noteq> []" by auto
  with p runningMaximum_None [OF ne'] show ?thesis by auto
qed

text \<open>The earlier facade returns when every evaluation succeeds, and then with the greatest
  target.\<close>

lemma Evaluator_loop_total:
  assumes "\<forall>gm \<in> set gms. \<exists>ev. getEv gm = Inr ev"
  shows "\<exists>r. Evaluator_loop getEv gms evaluation = Inr r"
  using assms
proof (induction gms arbitrary: evaluation)
  case Nil
  show ?case by simp
next
  case (Cons gm gms)
  then obtain ev where ev: "getEv gm = Inr ev" by auto
  from Cons.prems have rest: "\<forall>gm \<in> set gms. \<exists>ev. getEv gm = Inr ev" by simp
  show ?case
    using ev Cons.IH [OF rest] by (simp split: option.splits)
qed

lemma Evaluator_all_succeed:
  assumes "gms \<noteq> []"
    and "\<forall>gm \<in> set gms.
           \<exists>ev. Evaluator_getEvaluation ratio uratio tol (m_CurrentReplicas gm) gm = Inr ev"
  shows "\<exists>ev. Evaluator_GetEvaluation ratio uratio tol gms = Inr (Some ev)
            \<and> ev_TargetReplicas ev =
                Max (set (successfulTargets
                       (\<lambda>gm. Evaluator_getEvaluation ratio uratio tol (m_CurrentReplicas gm) gm) gms))"
proof -
  let ?getEv = "\<lambda>gm. Evaluator_getEvaluation ratio uratio tol (m_CurrentReplicas gm) gm"
  from Evaluator_loop_total [of gms ?getEv None] assms(2)
  obtain r where loop: "Evaluator_loop ?getEv gms None = Inr r" by blast
  with assms(1) have res: "Evaluator_GetEvaluation ratio uratio tol gms = Inr r"
    by (simp add: Evaluator_GetEvaluation_def Let_def)
  from Evaluator_max [OF res] res show ?thesis by auto
qed

lemmas source_types = ObjectMetricSourceType_def PodsMetricSourceType_def
  ResourceMetricSourceType_def ExternalMetricSourceType_def ValueMetricType_def
  AverageValueMetricType_def

lemmas eval_facade = Evaluate_GetEvaluation_def Evaluate_getEvaluation_def metricOfType_def
  source_types successfulTargets_Nil successfulTargets_Cons

text \<open>The later resource evaluator hands the \<^verbatim>\<open>AverageValue\<close> of the resource spec to
  the plain-metric calculation.\<close>

lemma Resource_average_value:
  assumes "ms_Resource (m_Spec gm) = Some sr"
    and "mt_AverageValue (src_Target sr) = Some averageValue"
    and "m_Resource gm = Some rm"
  shows "Resource_GetEvaluation calc uratio tol C gm =
           (case calc (rm_PodMetricsInfo rm) C averageValue (rm_ReadyPodCount rm)
                   (rm_MissingPods rm) (rm_IgnoredPods rm) of
              Inl p \<Rightarrow> Inl (Panic p)
            | Inr (replicaCount, metrics') \<Rightarrow> Inr (\<lparr>ev_TargetReplicas = replicaCount\<rparr>, metrics'))"
  using assms by (simp add: Resource_GetEvaluation_def)

subsection \<open>The loop of the classifier\<close>

lemma groupPods_loop_eq:
  "groupPods_loop now metrics resource cpuInit delay pods (ready, ignored, missing) =
     (ready + int (length (filter (isReady now metrics resource cpuInit delay) pods)),
      ignored |\<union>| fset_of_list (map pod_Name (filter (isIgnored now metrics resource cpuInit delay) pods)),
      missing |\<union>| fset_of_list (map pod_Name (filter (isMissing metrics) pods)))"
proof (induction pods arbitrary: ready ignored missing)
  case Nil
  show ?case by simp
next
  case (Cons pod pods)
  let ?R = "isReady now metrics resource cpuInit delay"
  let ?I = "isIgnored now metrics resource cpuInit delay"
  let ?M = "isMissing metrics"
  show ?case
  proof (cases "counted pod")
    case False
    then have flags: "\<not> ?R pod" "\<not> ?I pod" "\<not> ?M pod"
      by (simp_all add: isReady_def isIgnored_def isMissing_def)
    from False have skip: "pod_DeletionTimestamp pod \<noteq> None \<or> pod_Phase pod = PodFailed"
      by (simp add: counted_def)
    have step: "groupPods_loop now metrics resource cpuInit delay (pod # pods) (ready, ignored, missing)
        = groupPods_loop now metrics resource cpuInit delay pods (ready, ignored, missing)"
      using skip by simp
    show ?thesis
      unfolding step Cons.IH using flags by simp
  next
    case True
    then have keep: "\<not> (pod_DeletionTimestamp pod \<noteq> None \<or> pod_Phase pod = PodFailed)"
      by (simp add: counted_def)
    show ?thesis
    proof (cases "metrics (pod_Name pod)")
      case None
      with True have flags: "\<not> ?R pod" "\<not> ?I pod" "?M pod"
        by (simp_all add: isReady_def isIgnored_def isMissing_def)
      have step: "groupPods_loop now metrics resource cpuInit delay (pod # pods) (ready, ignored, missing)
          = groupPods_loop now metrics resource cpuInit delay pods
              (ready, ignored, finsert (pod_Name pod) missing)"
        using keep None by simp
      show ?thesis
        unfolding step Cons.IH using flags by simp
    next
      case (Some metric)
      show ?thesis
      proof (cases "resource = ResourceCPU \<and> ignorePod now pod metric cpuInit delay")
        case ign: True
        with True Some have flags: "\<not> ?R pod" "?I pod" "\<not> ?M pod"
          by (simp_all add: isReady_def isIgnored_def isMissing_def)
        have step: "groupPods_loop now metrics resource cpuInit delay (pod # pods) (ready, ignored, missing)
            = groupPods_loop now metrics resource cpuInit delay pods
                (ready, finsert (pod_Name pod) ignored, missing)"
          using keep Some ign by simp
        show ?thesis
          unfolding step Cons.IH using flags by simp
      next
        case rdy: False
        with True Some have flags: "?R pod" "\<not> ?I pod" "\<not> ?M pod"
          by (auto simp: isReady_def isIgnored_def isMissing_def)
        have step: "groupPods_loop now metrics resource cpuInit delay (pod # pods) (ready, ignored, missing)
            = groupPods_loop now metrics resource cpuInit delay pods (ready + 1, ignored, missing)"
          using keep Some rdy by auto
        show ?thesis
          unfolding step Cons.IH using flags by simp
      qed
    qed
  qed
qed

lemma groupPods_eq:
  "groupPods now pods metrics resource cpuInit delay =
     (int (length (filter (isReady now metrics resource cpuInit delay) pods)),
      fset_of_list (map pod_Name (filter (isIgnored now metrics resource cpuInit delay) pods)),
      fset_of_list (map pod_Name (filter (isMissing metrics) pods)))"
  by (simp add: groupPods_def groupPods_loop_eq)

lemma partition_counted:
  "length (filter counted pods) =
     length (filter (isReady now metrics resource cpuInit delay) pods)
     + length (filter (isIgnored now metrics resource cpuInit delay) pods)
     + length (filter (isMissing metrics) pods)"
  by (induction pods) (auto simp: isMissing_def isIgnored_def isReady_def)

lemma fcard_names:
  assumes "distinct (map pod_Name (filter counted pods))" and "\<And>pod. P pod \<Longrightarrow> counted pod"
  shows "fcard (fset_of_list (map pod_Name (filter P pods))) = length (filter P pods)"
proof -
  have "filter P pods = filter P (filter counted pods)"
    using assms(2) by (auto intro: filter_cong)
  then have "distinct (map pod_Name (filter P pods))"
    using assms(1) distinct_map_filter by metis
  then have "card (set (map pod_Name (filter P pods))) = length (map pod_Name (filter P pods))"
    by (rule distinct_card)
  then show ?thesis
    by (simp only: fcard.rep_eq fset_of_list.rep_eq length_map)
qed

lemmas eval_groupPods = groupPods_def examplePod_def readyCondition_def ignorePod_def
  GetPodCondition_def cpuTimingGated_def counted_def PodFailed_def PodReady_def
  ConditionFalse_def ResourceCPU_def fcard_finsert_if fcard_fempty Let_def

lemma ignorePod_eq: "ignorePod now pod metric cpuInit delay = cpuTimingGated now pod metric cpuInit delay"
  by (auto simp: ignorePod_def cpuTimingGated_def Let_def split: option.splits)

lemma in_ignored_iff:
  "podName |\<in>| fst (snd (groupPods now pods metrics resource cpuInit delay))
     \<longleftrightarrow> (\<exists>q \<in> set pods. pod_Name q = podName \<and> isIgnored now metrics resource cpuInit delay q)"
  by (auto simp: groupPods_eq fset_of_list_elem)

section \<open>Results\<close>

text \<open>
  C9, as stated, fails on four calls of the helper. With \<open>u = 10^10\<close> and \<open>P = 1\<close>, for
  \<open>C = 0\<close> and for \<open>C = 1\<close> (outside the tolerance), \<open>\<lceil>u\<rceil>\<close> and \<open>\<lceil>u \<sqdot> P\<rceil>\<close> are \<open>10^10\<close>,
  which is no \<^verbatim>\<open>int32\<close>: the conversion answers \<open>-2147483648\<close>. With \<open>C = 1\<close>, \<open>u\<close> the
  \<^verbatim>\<open>float64\<close> nearest to one tenth, which lies above it, and \<open>P = 10\<close>, the exact product
  is above 1 and its ceiling is 2; the \<^verbatim>\<open>float64\<close> product is 1, and so is the result. With a tolerance of \<open>7/8\<close>, \<open>C = 5\<close>, \<open>P = 1\<close> and \<open>u = 1/8 - 2^(-56)\<close>,
  \<open>|1 - u|\<close> exceeds the tolerance by \<open>2^(-56)\<close> and \<open>\<lceil>u \<sqdot> P\<rceil>\<close> is 1; the \<^verbatim>\<open>float64\<close> difference
  \<open>1 - u\<close> is \<open>7/8\<close>, within the tolerance, and the result is 5.
\<close>

theorem usage_ratio_replica_count_counterexample:
  "\<not> ((0::int) = 0
       \<longrightarrow> getUsageRatioReplicaCount (Finite (3602879701896397 / 36028797018963968)) 0
             (Finite 10000000000) 1 = \<lceil>(10000000000::real)\<rceil>)
   \<and> \<not> ((1::int) \<noteq> 0 \<and> \<not> \<bar>1 - (10000000000::real)\<bar> \<le> 3602879701896397 / 36028797018963968
       \<longrightarrow> getUsageRatioReplicaCount (Finite (3602879701896397 / 36028797018963968)) 1
             (Finite 10000000000) 1 = \<lceil>(10000000000::real) * real_of_int 1\<rceil>)
   \<and> \<not> ((1::int) \<noteq> 0
        \<and> \<not> \<bar>1 - (3602879701896397 / 36028797018963968 :: real)\<bar>
              \<le> 3602879701896397 / 36028797018963968
       \<longrightarrow> getUsageRatioReplicaCount (Finite (3602879701896397 / 36028797018963968)) 1
             (Finite (3602879701896397 / 36028797018963968)) 10
           = \<lceil>(3602879701896397 / 36028797018963968 :: real) * real_of_int 10\<rceil>)
   \<and> \<not> ((5::int) \<noteq> 0
        \<and> \<not> \<bar>1 - (9007199254740991 / 72057594037927936 :: real)\<bar> \<le> 7 / 8
       \<longrightarrow> getUsageRatioReplicaCount (Finite (7 / 8)) 5
             (Finite (9007199254740991 / 72057594037927936)) 1
           = \<lceil>(9007199254740991 / 72057594037927936 :: real) * real_of_int 1\<rceil>)"
proof -
  have z: "getUsageRatioReplicaCount (Finite (3602879701896397 / 36028797018963968)) 0
             (Finite 10000000000) 1 = - 2147483648"
    by (simp add: getUsageRatioReplicaCount_def)
  have a: "getUsageRatioReplicaCount (Finite (3602879701896397 / 36028797018963968)) 1
             (Finite 10000000000) 1 = - 2147483648"
    by (simp add: getUsageRatioReplicaCount_def eval_f64)
  have b: "getUsageRatioReplicaCount (Finite (3602879701896397 / 36028797018963968)) 1
             (Finite (3602879701896397 / 36028797018963968)) 10 = 1"
    by (simp add: getUsageRatioReplicaCount_def eval_f64)
  have c: "getUsageRatioReplicaCount (Finite (7 / 8)) 5
             (Finite (9007199254740991 / 72057594037927936)) 1 = 5"
    by (simp add: getUsageRatioReplicaCount_def eval_f64)
  have b': "\<lceil>(3602879701896397 / 36028797018963968 :: real) * real_of_int 10\<rceil> = 2"
    by (simp add: ceiling_eq_iff)
  have c': "\<lceil>(9007199254740991 / 72057594037927936 :: real) * real_of_int 1\<rceil> = 1"
    by (simp add: ceiling_eq_iff)
  show ?thesis
    unfolding z a b c b' c' by simp
qed

text \<open>
  C9, amended. The usage-ratio-replica helper computes in \<^verbatim>\<open>float64\<close> and converts to
  \<^verbatim>\<open>int32\<close>: with current replicas \<open>C\<close>, usage ratio \<open>u\<close> and ready pod count \<open>P\<close>, the
  result is \<^verbatim>\<open>int32\<close>\<open>(\<lceil>u\<rceil>)\<close> when \<open>C = 0\<close>, whatever the tolerance; when \<open>C \<noteq> 0\<close> it is \<open>C\<close> if
  the \<^verbatim>\<open>float64\<close> value of \<open>|1 - u|\<close> is at most the tolerance, and
  \<^verbatim>\<open>int32\<close>\<open>(\<lceil>u \<otimes> P\<rceil>)\<close> otherwise, \<open>\<otimes>\<close> being the \<^verbatim>\<open>float64\<close> product of \<open>u\<close> and the
  conversion of \<open>P\<close>. The conversion \<^verbatim>\<open>int32\<close>\<open>(\<lceil>y\<rceil>)\<close> of a finite \<open>y\<close> is \<open>\<lceil>y\<rceil>\<close> when
  \<open>-2^31 \<le> \<lceil>y\<rceil> < 2^31\<close> and \<open>-2^31\<close> when not, as it is for an infinity and for NaN.
\<close>

theorem usage_ratio_replica_count:
  "(C = 0 \<longrightarrow> getUsageRatioReplicaCount tol C u P = int32_of_f64 (f64_ceil u))
   \<and> (C \<noteq> 0 \<and> withinTolerance tol u \<longrightarrow> getUsageRatioReplicaCount tol C u P = C)
   \<and> (C \<noteq> 0 \<and> \<not> withinTolerance tol u \<longrightarrow>
        getUsageRatioReplicaCount tol C u P = int32_of_f64 (f64_ceil (f64_mul u (f64_of_int P))))
   \<and> int32_of_f64 (f64_ceil (Finite y)) =
        (if - 2147483648 \<le> \<lceil>y\<rceil> \<and> \<lceil>y\<rceil> < 2147483648 then \<lceil>y\<rceil> else - 2147483648)
   \<and> int32_of_f64 (f64_ceil PosInf) = - 2147483648
   \<and> int32_of_f64 (f64_ceil NegInf) = - 2147483648
   \<and> int32_of_f64 (f64_ceil NaN) = - 2147483648"
  by (simp add: getUsageRatioReplicaCount_def Let_def)

text \<open>From zero replicas a ratio of \<open>1/2\<close> gives one replica; with three replicas and seven
  ready pods a ratio of 1 keeps the three and a ratio of 2 gives fourteen.\<close>

theorem usage_ratio_replica_count_witness:
  "getUsageRatioReplicaCount defaultTolerance 0 (Finite (1/2)) 7 = 1
   \<and> withinTolerance defaultTolerance (Finite 1)
   \<and> getUsageRatioReplicaCount defaultTolerance 3 (Finite 1) 7 = 3
   \<and> \<not> withinTolerance defaultTolerance (Finite 2)
   \<and> f64_mul (Finite 2) (f64_of_int 7) = Finite 14
   \<and> getUsageRatioReplicaCount defaultTolerance 3 (Finite 2) 7 = 14"
proof -
  have in1: "withinTolerance defaultTolerance (Finite 1)"
    by (simp add: defaultTolerance_eq eval_f64)
  have out2: "\<not> withinTolerance defaultTolerance (Finite 2)"
    by (simp add: defaultTolerance_eq eval_f64)
  have mul: "f64_mul (Finite 2) (f64_of_int 7) = Finite 14"
    by (simp add: eval_f64)
  have c1: "\<lceil>(1/2::real)\<rceil> = 1" and c2: "\<lceil>(14::real)\<rceil> = 14"
    by (simp_all add: ceiling_eq_iff)
  from usage_ratio_replica_count
         [where C = 0 and tol = defaultTolerance and u = "Finite (1/2)" and P = 7 and y = "1/2"]
  have r0: "getUsageRatioReplicaCount defaultTolerance 0 (Finite (1/2)) 7 = 1"
    using c1 by simp
  from usage_ratio_replica_count
         [where C = 3 and tol = defaultTolerance and u = "Finite 1" and P = 7 and y = 14]
  have r1: "getUsageRatioReplicaCount defaultTolerance 3 (Finite 1) 7 = 3"
    using in1 by simp
  from usage_ratio_replica_count
         [where C = 3 and tol = defaultTolerance and u = "Finite 2" and P = 7 and y = 14]
  have r2: "getUsageRatioReplicaCount defaultTolerance 3 (Finite 2) 7 = 14"
    using out2 mul c2 by simp
  from in1 out2 mul r0 r1 r2 show ?thesis by simp
qed

text \<open>
  C2, as stated, fails on four calls of the plain-metric calculation without missing or
  ignored pods. On the empty sample map the usage ratio is not computed: the average of
  the samples is an integer division by zero, and the call panics. With one sample of
  \<open>3 \<sqdot> 10^9\<close> against a target of 1 and one ready pod, \<open>\<lceil>u \<sqdot> R\<rceil>\<close> is \<open>3 \<sqdot> 10^9\<close>, no \<^verbatim>\<open>int32\<close>,
  and the result is \<open>-2147483648\<close>. With one sample of 1 against a target of 10 the ratio
  is the \<^verbatim>\<open>float64\<close> nearest to one tenth; for ten ready pods the ceiling of the exact
  product is 2, that of the \<^verbatim>\<open>float64\<close> product 1. With one sample of \<open>2^53 - 1\<close> against a
  target of \<open>2^56\<close>, a tolerance of \<open>7/8\<close> and five replicas, \<open>|1 - u|\<close> exceeds the tolerance
  by \<open>2^(-56)\<close>, but its \<^verbatim>\<open>float64\<close> value is \<open>7/8\<close>, and the result is 5, not \<open>\<lceil>u\<rceil> = 1\<close>.
\<close>

theorem plain_metric_no_correction_counterexample:
  "getPlainMetricReplicaCount GetMetricUtilizationRatio defaultTolerance Map.empty 1 1 1 {||} {||}
     = Inl IntegerDivideByZero
   \<and> \<not> ({||} = ({||} :: string fset)
        \<and> GetMetricUtilizationRatio [''pod-1'' \<mapsto> PodMetricValue 3000000000] 1
            = Inr (Finite 3000000000)
        \<and> \<not> \<bar>1 - (3000000000::real)\<bar> \<le> 3602879701896397 / 36028797018963968
       \<longrightarrow> getPlainMetricReplicaCount GetMetricUtilizationRatio
             (Finite (3602879701896397 / 36028797018963968))
             [''pod-1'' \<mapsto> PodMetricValue 3000000000] 1 1 1 {||} {||}
           = Inr (\<lceil>(3000000000::real) * real_of_int 1\<rceil>,
                  [''pod-1'' \<mapsto> PodMetricValue 3000000000]))
   \<and> \<not> ({||} = ({||} :: string fset)
        \<and> GetMetricUtilizationRatio [''pod-1'' \<mapsto> PodMetricValue 1] 10
            = Inr (Finite (3602879701896397 / 36028797018963968))
        \<and> \<not> \<bar>1 - (3602879701896397 / 36028797018963968 :: real)\<bar>
              \<le> 3602879701896397 / 36028797018963968
       \<longrightarrow> getPlainMetricReplicaCount GetMetricUtilizationRatio
             (Finite (3602879701896397 / 36028797018963968))
             [''pod-1'' \<mapsto> PodMetricValue 1] 1 10 10 {||} {||}
           = Inr (\<lceil>(3602879701896397 / 36028797018963968 :: real) * real_of_int 10\<rceil>,
                  [''pod-1'' \<mapsto> PodMetricValue 1]))
   \<and> \<not> ({||} = ({||} :: string fset)
        \<and> GetMetricUtilizationRatio [''pod-1'' \<mapsto> PodMetricValue 9007199254740991]
              72057594037927936
            = Inr (Finite (9007199254740991 / 72057594037927936))
        \<and> \<not> \<bar>1 - (9007199254740991 / 72057594037927936 :: real)\<bar> \<le> 7 / 8
       \<longrightarrow> getPlainMetricReplicaCount GetMetricUtilizationRatio (Finite (7 / 8))
             [''pod-1'' \<mapsto> PodMetricValue 9007199254740991] 5 72057594037927936 1 {||} {||}
           = Inr (\<lceil>(9007199254740991 / 72057594037927936 :: real) * real_of_int 1\<rceil>,
                  [''pod-1'' \<mapsto> PodMetricValue 9007199254740991]))"
proof -
  have e: "getPlainMetricReplicaCount GetMetricUtilizationRatio defaultTolerance Map.empty
             1 1 1 {||} {||} = Inl IntegerDivideByZero"
    by (simp add: getPlainMetricReplicaCount_def GetMetricUtilizationRatio_def len_metrics_def)
  have a: "getPlainMetricReplicaCount GetMetricUtilizationRatio
             (Finite (3602879701896397 / 36028797018963968))
             [''pod-1'' \<mapsto> PodMetricValue 3000000000] 1 1 1 {||} {||}
           = Inr (- 2147483648, [''pod-1'' \<mapsto> PodMetricValue 3000000000])"
    by (simp add: eval_plain)
  have b: "getPlainMetricReplicaCount GetMetricUtilizationRatio
             (Finite (3602879701896397 / 36028797018963968))
             [''pod-1'' \<mapsto> PodMetricValue 1] 1 10 10 {||} {||}
           = Inr (1, [''pod-1'' \<mapsto> PodMetricValue 1])"
    by (simp add: eval_plain)
  have c: "getPlainMetricReplicaCount GetMetricUtilizationRatio (Finite (7 / 8))
             [''pod-1'' \<mapsto> PodMetricValue 9007199254740991] 5 72057594037927936 1 {||} {||}
           = Inr (5, [''pod-1'' \<mapsto> PodMetricValue 9007199254740991])"
    by (simp add: eval_plain)
  have ra: "GetMetricUtilizationRatio [''pod-1'' \<mapsto> PodMetricValue 3000000000] 1
            = Inr (Finite 3000000000)"
    by (simp add: eval_plain)
  have rb: "GetMetricUtilizationRatio [''pod-1'' \<mapsto> PodMetricValue 1] 10
            = Inr (Finite (3602879701896397 / 36028797018963968))"
    by (simp add: eval_plain)
  have rc: "GetMetricUtilizationRatio [''pod-1'' \<mapsto> PodMetricValue 9007199254740991]
              72057594037927936
            = Inr (Finite (9007199254740991 / 72057594037927936))"
    by (simp add: eval_plain)
  have b': "\<lceil>(3602879701896397 / 36028797018963968 :: real) * real_of_int 10\<rceil> = 2"
    by (simp add: ceiling_eq_iff)
  have c': "\<lceil>(9007199254740991 / 72057594037927936 :: real) * real_of_int 1\<rceil> = 1"
    by (simp add: ceiling_eq_iff)
  show ?thesis
    unfolding e a b c ra rb rc b' c' by simp
qed

text \<open>
  C2, amended. The base case of the plain-metric calculation: when the usage-ratio
  computation returns a base usage ratio \<open>u\<close> (it does for a sample map that is not
  empty), no pod is missing and either no pod is ignored or \<open>u \<le> 1\<close>, the sample map is
  returned as it was given (no synthetic sample is inserted), and the result is the
  current replicas \<open>C\<close> when the \<^verbatim>\<open>float64\<close> value of \<open>|1 - u|\<close> is at most the tolerance,
  and \<^verbatim>\<open>int32\<close>\<open>(\<lceil>u \<otimes> R\<rceil>)\<close> otherwise, \<open>\<otimes>\<close> being the \<^verbatim>\<open>float64\<close> product of \<open>u\<close> and the
  conversion of the ready pod count \<open>R\<close>. The conversion \<^verbatim>\<open>int32\<close>\<open>(\<lceil>y\<rceil>)\<close> of a finite \<open>y\<close>
  is \<open>\<lceil>y\<rceil>\<close> when \<open>-2^31 \<le> \<lceil>y\<rceil> < 2^31\<close> and \<open>-2^31\<close> when not.
\<close>

theorem plain_metric_no_correction:
  assumes "ratio metrics T = Inr u"
    and "missingPods = {||}"
    and "ignoredPods = {||} \<or> f64_le u (Finite 1)"
  shows "getPlainMetricReplicaCount ratio tol metrics C T R missingPods ignoredPods =
           Inr (if withinTolerance tol u then C
                else int32_of_f64 (f64_ceil (f64_mul u (f64_of_int R))),
                metrics)
         \<and> int32_of_f64 (f64_ceil (Finite y)) =
             (if - 2147483648 \<le> \<lceil>y\<rceil> \<and> \<lceil>y\<rceil> < 2147483648 then \<lceil>y\<rceil> else - 2147483648)"
proof -
  have "\<not> (fcard ignoredPods > 0 \<and> f64_lt (Finite 1) u)"
    using assms(3) by (cases u) (auto simp: fcard_fempty f64_le_def)
  then show ?thesis
    using assms(1,2) by (simp add: getPlainMetricReplicaCount_def Let_def fcard_fempty)
qed

text \<open>Two runs of the base case: two samples of 30 and 50 against a target of 20 with two
  ready pods give \<open>u = 2\<close> and four replicas; one sample of 10 against 20 with an ignored
  pod gives \<open>u = 1/2\<close>, inside a tolerance of \<open>1/2\<close>, and the three current replicas.\<close>

theorem plain_metric_no_correction_witness:
  "GetMetricUtilizationRatio [''pod-1'' \<mapsto> PodMetricValue 30, ''pod-2'' \<mapsto> PodMetricValue 50] 20
     = Inr (Finite 2)
   \<and> getPlainMetricReplicaCount GetMetricUtilizationRatio defaultTolerance
       [''pod-1'' \<mapsto> PodMetricValue 30, ''pod-2'' \<mapsto> PodMetricValue 50] 2 20 2 {||} {||}
     = Inr (4, [''pod-1'' \<mapsto> PodMetricValue 30, ''pod-2'' \<mapsto> PodMetricValue 50])
   \<and> GetMetricUtilizationRatio [''pod-1'' \<mapsto> PodMetricValue 10] 20 = Inr (Finite (1/2))
   \<and> f64_le (Finite (1/2)) (Finite 1)
   \<and> getPlainMetricReplicaCount GetMetricUtilizationRatio (Finite (1/2))
       [''pod-1'' \<mapsto> PodMetricValue 10] 3 20 1 {||} {|''pod-2''|}
     = Inr (3, [''pod-1'' \<mapsto> PodMetricValue 10])"
proof -
  have r1: "GetMetricUtilizationRatio
              [''pod-1'' \<mapsto> PodMetricValue 30, ''pod-2'' \<mapsto> PodMetricValue 50] 20 = Inr (Finite 2)"
    by (simp add: eval_plain)
  have r2: "GetMetricUtilizationRatio [''pod-1'' \<mapsto> PodMetricValue 10] 20 = Inr (Finite (1/2))"
    by (simp add: eval_plain)
  show ?thesis
    using plain_metric_no_correction [where missingPods = "{||}" and ignoredPods = "{||}"
        and ratio = GetMetricUtilizationRatio and tol = defaultTolerance and C = 2 and T = 20
        and R = 2 and u = "Finite 2" and y = 4
        and metrics = "[''pod-1'' \<mapsto> PodMetricValue 30, ''pod-2'' \<mapsto> PodMetricValue 50]"]
      plain_metric_no_correction [where missingPods = "{||}" and ignoredPods = "{|''pod-2''|}"
        and ratio = GetMetricUtilizationRatio and tol = "Finite (1/2)" and C = 3 and T = 20
        and R = 1 and u = "Finite (1/2)" and y = 1
        and metrics = "[''pod-1'' \<mapsto> PodMetricValue 10]"]
    by (simp add: r1 r2 defaultTolerance_eq eval_f64)
qed

text \<open>
  C3. The fill-in of the plain-metric calculation at a base ratio of exactly 1. One pod
  samples 10 against a target of 10, so \<open>u = 1\<close>; a second pod is missing; two replicas
  run. The missing pod receives a synthetic sample of value 0 (the branch taken is the one
  for \<open>u > 1\<close>), the recomputed ratio is \<open>1/2\<close>, and the call answers one replica. The
  utilization mode, with the same statements otherwise, inserts nothing at \<open>u = 1\<close>.
\<close>

theorem plain_metric_fill_at_one:
  "GetMetricUtilizationRatio [''pod-1'' \<mapsto> PodMetricValue 10] 10 = Inr (Finite 1)
   \<and> getPlainMetricReplicaCount GetMetricUtilizationRatio defaultTolerance
        [''pod-1'' \<mapsto> PodMetricValue 10] 2 10 1 {|''pod-2''|} {||}
      = Inr (1, [''pod-1'' \<mapsto> PodMetricValue 10, ''pod-2'' \<mapsto> PodMetricValue 0])"
  by (simp add: eval_plain)

text \<open>
  C1. The direction-flip guard, run on the plain-metric calculation at a base ratio of
  exactly 1. One sample of 500 against a target of 500 gives \<open>u = 1\<close>, and \<open>1 - u\<close> has
  sign 0; the missing pod is filled with 0, the recomputed ratio is \<open>1/2\<close> and \<open>1 - u'\<close> is
  positive. The signs differ, and the call answers one replica, not the five current
  ones. For every other base ratio, and in the utilization mode for every base ratio, a
  difference of the signs gives the current replicas under a tolerance that is not
  negative: lemmas \<open>plain_direction_flip_sgn\<close> and \<open>utilization_direction_flip_sgn\<close>.
\<close>

theorem direction_flip_at_one:
  "GetMetricUtilizationRatio [''pod-a'' \<mapsto> PodMetricValue 500] 500 = Inr (Finite 1)
   \<and> getPlainMetricReplicaCount GetMetricUtilizationRatio defaultTolerance
        [''pod-a'' \<mapsto> PodMetricValue 500] 5 500 1 {|''pod-b''|} {||}
      = Inr (1, [''pod-a'' \<mapsto> PodMetricValue 500, ''pod-b'' \<mapsto> PodMetricValue 0])
   \<and> GetMetricUtilizationRatio [''pod-a'' \<mapsto> PodMetricValue 500, ''pod-b'' \<mapsto> PodMetricValue 0] 500
      = Inr (Finite (1/2))
   \<and> sgn (1 - (1::real)) \<noteq> sgn (1 - (1/2::real))"
  by (simp add: eval_plain)

text \<open>
  C4, as stated, fails for a pod list in which two pods carry the same name: both are
  counted and neither has a sample, but the set of missing pods holds their name once, so
  ready + |ignored| + |missing| is 1 for 2 counted pods.
\<close>

theorem classifier_partition_counterexample:
  "\<not> (fst (groupPods 1000 [examplePod ''pod-1'' ''Running'' (Some 100) [],
                           examplePod ''pod-1'' ''Pending'' None []] Map.empty ResourceCPU 300 30)
       + int (fcard (fst (snd (groupPods 1000 [examplePod ''pod-1'' ''Running'' (Some 100) [],
                           examplePod ''pod-1'' ''Pending'' None []] Map.empty ResourceCPU 300 30))))
       + int (fcard (snd (snd (groupPods 1000 [examplePod ''pod-1'' ''Running'' (Some 100) [],
                           examplePod ''pod-1'' ''Pending'' None []] Map.empty ResourceCPU 300 30))))
       = int (length (filter counted [examplePod ''pod-1'' ''Running'' (Some 100) [],
                           examplePod ''pod-1'' ''Pending'' None []])))"
  by (simp add: eval_groupPods)

text \<open>
  C4, amended. The partition invariant of the classifier: for every pod list in which the
  pods that are neither marked for deletion nor failed have pairwise distinct names, every
  sample map, resource kind and pair of timing constants, \<open>groupPods\<close> returns
  (ready, ignored, missing) with ready + |ignored| + |missing| equal to the number of pods
  that are not marked for deletion and whose phase is not Failed; missing holds exactly the
  names of those pods that have no sample in the map, and every ignored name has a sample.
\<close>

theorem classifier_partition:
  assumes "distinct (map pod_Name (filter counted pods))"
    and "groupPods now pods metrics resource cpuInit delay = (ready, ignored, missing)"
  shows "ready + int (fcard ignored) + int (fcard missing) = int (length (filter counted pods))
         \<and> fset missing = pod_Name ` {pod \<in> set pods. counted pod \<and> metrics (pod_Name pod) = None}
         \<and> (\<forall>podName. podName |\<in>| ignored \<longrightarrow> metrics podName \<noteq> None)"
proof -
  from assms(2) have r: "ready = int (length (filter (isReady now metrics resource cpuInit delay) pods))"
    and i: "ignored = fset_of_list (map pod_Name (filter (isIgnored now metrics resource cpuInit delay) pods))"
    and m: "missing = fset_of_list (map pod_Name (filter (isMissing metrics) pods))"
    by (simp_all add: groupPods_eq)
  have ci: "fcard ignored = length (filter (isIgnored now metrics resource cpuInit delay) pods)"
    unfolding i using assms(1) by (rule fcard_names) (simp add: isIgnored_def)
  have cm: "fcard missing = length (filter (isMissing metrics) pods)"
    unfolding m using assms(1) by (rule fcard_names) (simp add: isMissing_def)
  have sum: "ready + int (fcard ignored) + int (fcard missing) = int (length (filter counted pods))"
    using partition_counted [of pods now metrics resource cpuInit delay] r ci cm by simp
  have mis: "fset missing = pod_Name ` {pod \<in> set pods. counted pod \<and> metrics (pod_Name pod) = None}"
    unfolding m by (auto simp: fset_of_list.rep_eq isMissing_def)
  have ign: "\<forall>podName. podName |\<in>| ignored \<longrightarrow> metrics podName \<noteq> None"
    unfolding i by (auto simp: fset_of_list_elem isIgnored_def split: option.splits)
  from sum mis ign show ?thesis by blast
qed


text \<open>Four pods with distinct names under the CPU rule: the first is sampled and ready, the
  second has no sample, the third has failed, the fourth is sampled but has neither a ready
  condition nor a start time. Three pods are counted: one ready, one ignored, one missing.\<close>

theorem classifier_partition_witness:
  "distinct (map pod_Name (filter counted
       [examplePod ''pod-1'' ''Running'' (Some 100) [readyCondition ''True'' 150],
        examplePod ''pod-2'' ''Running'' (Some 100) [readyCondition ''True'' 150],
        examplePod ''pod-3'' ''Failed'' (Some 100) [],
        examplePod ''pod-4'' ''Pending'' None []]))
   \<and> groupPods 1000
       [examplePod ''pod-1'' ''Running'' (Some 100) [readyCondition ''True'' 150],
        examplePod ''pod-2'' ''Running'' (Some 100) [readyCondition ''True'' 150],
        examplePod ''pod-3'' ''Failed'' (Some 100) [],
        examplePod ''pod-4'' ''Pending'' None []]
       [''pod-1'' \<mapsto> \<lparr>pm_Timestamp = 990, pm_Window = 60, pm_Value = 250\<rparr>,
        ''pod-4'' \<mapsto> \<lparr>pm_Timestamp = 990, pm_Window = 60, pm_Value = 10\<rparr>]
       ResourceCPU 300 30
     = (1, {|''pod-4''|}, {|''pod-2''|})
   \<and> length (filter counted
       [examplePod ''pod-1'' ''Running'' (Some 100) [readyCondition ''True'' 150],
        examplePod ''pod-2'' ''Running'' (Some 100) [readyCondition ''True'' 150],
        examplePod ''pod-3'' ''Failed'' (Some 100) [],
        examplePod ''pod-4'' ''Pending'' None []]) = 3"
  using classifier_partition [where now = 1000 and resource = ResourceCPU and cpuInit = 300
      and delay = 30 and ready = 1 and ignored = "{|''pod-4''|}" and missing = "{|''pod-2''|}"
      and metrics = "[''pod-1'' \<mapsto> \<lparr>pm_Timestamp = 990, pm_Window = 60, pm_Value = 250\<rparr>,
        ''pod-4'' \<mapsto> \<lparr>pm_Timestamp = 990, pm_Window = 60, pm_Value = 10\<rparr>]"
      and pods = "[examplePod ''pod-1'' ''Running'' (Some 100) [readyCondition ''True'' 150],
        examplePod ''pod-2'' ''Running'' (Some 100) [readyCondition ''True'' 150],
        examplePod ''pod-3'' ''Failed'' (Some 100) [],
        examplePod ''pod-4'' ''Pending'' None []]"]
  by (simp add: eval_groupPods)

text \<open>
  C8. The timing rule for CPU samples. In the iteration of \<open>groupPods\<close> for a counted pod
  with a sample, under the CPU resource, the pod is put into the ignored set exactly when
  it has no ready condition or no start time; or start time + cpuInitializationPeriod is in
  the future and (its ready status is False or the sample timestamp is earlier than the
  last transition time + the sample window); or the initialization period has passed, its
  ready status is False and start time + initialReadinessDelay is after the last transition
  time; otherwise it is counted ready. Hence such a pod of the list is in the ignored set
  of the result when the rule holds for it, and exactly when the rule holds for it if no
  other pod of the list has its name. For any other resource no pod is ignored.
\<close>

theorem cpu_timing_gating:
  "(counted pod \<and> metrics (pod_Name pod) = Some metric \<longrightarrow>
      groupPods_loop now metrics ResourceCPU cpuInit delay (pod # rest) (ready, ignored, missing) =
        groupPods_loop now metrics ResourceCPU cpuInit delay rest
          (if cpuTimingGated now pod metric cpuInit delay
           then (ready, finsert (pod_Name pod) ignored, missing)
           else (ready + 1, ignored, missing)))
   \<and> (pod \<in> set pods \<and> counted pod \<and> metrics (pod_Name pod) = Some metric
       \<and> cpuTimingGated now pod metric cpuInit delay \<longrightarrow>
      pod_Name pod |\<in>| fst (snd (groupPods now pods metrics ResourceCPU cpuInit delay)))
   \<and> (pod \<in> set pods \<and> counted pod \<and> metrics (pod_Name pod) = Some metric
       \<and> (\<forall>q \<in> set pods. pod_Name q = pod_Name pod \<longrightarrow> q = pod) \<longrightarrow>
      (pod_Name pod |\<in>| fst (snd (groupPods now pods metrics ResourceCPU cpuInit delay))
         \<longleftrightarrow> cpuTimingGated now pod metric cpuInit delay))
   \<and> (resource \<noteq> ResourceCPU \<longrightarrow>
      fst (snd (groupPods now pods metrics resource cpuInit delay)) = {||})"
proof (intro conjI impI)
  assume a: "counted pod \<and> metrics (pod_Name pod) = Some metric"
  then show "groupPods_loop now metrics ResourceCPU cpuInit delay (pod # rest) (ready, ignored, missing) =
        groupPods_loop now metrics ResourceCPU cpuInit delay rest
          (if cpuTimingGated now pod metric cpuInit delay
           then (ready, finsert (pod_Name pod) ignored, missing)
           else (ready + 1, ignored, missing))"
    by (simp add: counted_def ignorePod_eq)
next
  assume a: "pod \<in> set pods \<and> counted pod \<and> metrics (pod_Name pod) = Some metric
       \<and> cpuTimingGated now pod metric cpuInit delay"
  then have "isIgnored now metrics ResourceCPU cpuInit delay pod"
    by (simp add: isIgnored_def ignorePod_eq)
  with a show "pod_Name pod |\<in>| fst (snd (groupPods now pods metrics ResourceCPU cpuInit delay))"
    unfolding in_ignored_iff by blast
next
  assume a: "pod \<in> set pods \<and> counted pod \<and> metrics (pod_Name pod) = Some metric
       \<and> (\<forall>q \<in> set pods. pod_Name q = pod_Name pod \<longrightarrow> q = pod)"
  then have "isIgnored now metrics ResourceCPU cpuInit delay pod
               \<longleftrightarrow> cpuTimingGated now pod metric cpuInit delay"
    by (simp add: isIgnored_def ignorePod_eq)
  with a show "pod_Name pod |\<in>| fst (snd (groupPods now pods metrics ResourceCPU cpuInit delay))
         \<longleftrightarrow> cpuTimingGated now pod metric cpuInit delay"
    unfolding in_ignored_iff by blast
next
  assume "resource \<noteq> ResourceCPU"
  then have "filter (isIgnored now metrics resource cpuInit delay) pods = []"
    by (simp add: isIgnored_def)
  then show "fst (snd (groupPods now pods metrics resource cpuInit delay)) = {||}"
    by (simp add: groupPods_eq)
qed

text \<open>At time 1000, with an initialization period of 300 and a readiness delay of 30: a
  pod started at 900 and ready since 950 whose sample of time 960 covers a window of 60 is
  ignored (the sample is older than 950 + 60); a pod started at 100, not ready since 400,
  is past the period and was ready before, so it counts as ready. Under the memory
  resource both count as ready.\<close>

theorem cpu_timing_gating_witness:
  "groupPods 1000
       [examplePod ''pod-1'' ''Running'' (Some 900) [readyCondition ''True'' 950],
        examplePod ''pod-2'' ''Running'' (Some 100) [readyCondition ''False'' 400]]
       [''pod-1'' \<mapsto> \<lparr>pm_Timestamp = 960, pm_Window = 60, pm_Value = 250\<rparr>,
        ''pod-2'' \<mapsto> \<lparr>pm_Timestamp = 990, pm_Window = 60, pm_Value = 10\<rparr>]
       ResourceCPU 300 30
     = (1, {|''pod-1''|}, {||})
   \<and> cpuTimingGated 1000 (examplePod ''pod-1'' ''Running'' (Some 900) [readyCondition ''True'' 950])
        \<lparr>pm_Timestamp = 960, pm_Window = 60, pm_Value = 250\<rparr> 300 30
   \<and> \<not> cpuTimingGated 1000 (examplePod ''pod-2'' ''Running'' (Some 100) [readyCondition ''False'' 400])
        \<lparr>pm_Timestamp = 990, pm_Window = 60, pm_Value = 10\<rparr> 300 30
   \<and> groupPods 1000
       [examplePod ''pod-1'' ''Running'' (Some 900) [readyCondition ''True'' 950],
        examplePod ''pod-2'' ''Running'' (Some 100) [readyCondition ''False'' 400]]
       [''pod-1'' \<mapsto> \<lparr>pm_Timestamp = 960, pm_Window = 60, pm_Value = 250\<rparr>,
        ''pod-2'' \<mapsto> \<lparr>pm_Timestamp = 990, pm_Window = 60, pm_Value = 10\<rparr>]
       ''memory'' 300 30
     = (2, {||}, {||})"
  using cpu_timing_gating [where now = 1000 and cpuInit = 300 and delay = 30
      and resource = "''memory''"
      and pod = "examplePod ''pod-1'' ''Running'' (Some 900) [readyCondition ''True'' 950]"
      and metric = "\<lparr>pm_Timestamp = 960, pm_Window = 60, pm_Value = 250\<rparr>"
      and rest = "[examplePod ''pod-2'' ''Running'' (Some 100) [readyCondition ''False'' 400]]"
      and ready = 0 and ignored = "{||}" and missing = "{||}"
      and metrics = "[''pod-1'' \<mapsto> \<lparr>pm_Timestamp = 960, pm_Window = 60, pm_Value = 250\<rparr>,
        ''pod-2'' \<mapsto> \<lparr>pm_Timestamp = 990, pm_Window = 60, pm_Value = 10\<rparr>]"
      and pods = "[examplePod ''pod-1'' ''Running'' (Some 900) [readyCondition ''True'' 950],
        examplePod ''pod-2'' ''Running'' (Some 100) [readyCondition ''False'' 400]]"]
  by (simp add: eval_groupPods)

text \<open>
  C5. Max aggregation, run on the earlier facade \<open>Evaluator.GetEvaluation\<close>. Two object
  metrics that evaluate to 6 and to 4 replicas give 6. With a resource metric without a
  target between the two, whose evaluation returns an error, the evaluations that succeed
  are the same, 6 and 4, but the call returns the error of the resource metric: the
  failed evaluation is propagated, not skipped. The facade \<open>Evaluate\<close> skips it and
  returns the maximum (lemmas \<open>Evaluate_max\<close>, \<open>Evaluate_skips_errors\<close>); the earlier
  facade returns the maximum when every evaluation succeeds (lemma
  \<open>Evaluator_all_succeed\<close>).
\<close>

theorem first_error_hides_maximum:
  "Evaluator_GetEvaluation GetMetricUtilizationRatio GetResourceUtilizationRatio defaultTolerance
       [objectValueMetric 2 3000 1000 2, objectValueMetric 2 2000 1000 2]
     = Inr (Some \<lparr>ev_TargetReplicas = 6\<rparr>)
   \<and> successfulTargets
       (\<lambda>gm. Evaluator_getEvaluation GetMetricUtilizationRatio GetResourceUtilizationRatio
                defaultTolerance (m_CurrentReplicas gm) gm)
       [objectValueMetric 2 3000 1000 2, resourceMetric 2 noTarget None None,
        objectValueMetric 2 2000 1000 2] = [6, 4]
   \<and> Evaluator_GetEvaluation GetMetricUtilizationRatio GetResourceUtilizationRatio defaultTolerance
       [objectValueMetric 2 3000 1000 2, resourceMetric 2 noTarget None None,
        objectValueMetric 2 2000 1000 2]
     = Inl (Error ''invalid resource metric source: neither a utilization target nor a value target was set'')"
proof -
  have o6: "Evaluator_getEvaluation GetMetricUtilizationRatio GetResourceUtilizationRatio
              defaultTolerance 2 (objectValueMetric 2 3000 1000 2) = Inr \<lparr>ev_TargetReplicas = 6\<rparr>"
    by (simp add: Evaluator_getEvaluation_def source_types getObjectEvaluation_def
          objectValueMetric_def getUsageRatioReplicaCount_def defaultTolerance_eq eval_f64)
  have o4: "Evaluator_getEvaluation GetMetricUtilizationRatio GetResourceUtilizationRatio
              defaultTolerance 2 (objectValueMetric 2 2000 1000 2) = Inr \<lparr>ev_TargetReplicas = 4\<rparr>"
    by (simp add: Evaluator_getEvaluation_def source_types getObjectEvaluation_def
          objectValueMetric_def getUsageRatioReplicaCount_def defaultTolerance_eq eval_f64)
  have bad: "Evaluator_getEvaluation GetMetricUtilizationRatio GetResourceUtilizationRatio
              defaultTolerance 2 (resourceMetric 2 noTarget None None)
             = Inl (Error ''invalid resource metric source: neither a utilization target nor a value target was set'')"
    by (simp add: Evaluator_getEvaluation_def source_types getResourceEvaluation_def
          resourceMetric_def noTarget_def)
  have cr: "m_CurrentReplicas (objectValueMetric 2 3000 1000 2) = 2"
    "m_CurrentReplicas (objectValueMetric 2 2000 1000 2) = 2"
    "m_CurrentReplicas (resourceMetric 2 noTarget None None) = 2"
    by (simp_all add: objectValueMetric_def resourceMetric_def)
  show ?thesis
    by (simp add: Evaluator_GetEvaluation_def successfulTargets_Cons successfulTargets_Nil
          cr o6 o4 bad)
qed

text \<open>
  C6. The failure policy, run on the earlier facade \<open>Evaluator.GetEvaluation\<close> with two
  gathered metrics: an object metric that evaluates to four replicas, and a resource
  metric without a target, whose evaluation returns an error. Not every metric fails, yet
  the call returns an error, and the error is the one of the second metric as it is, not
  the message that counts the invalid evaluations. The facade \<open>Evaluate\<close> follows the
  policy: lemmas \<open>Evaluate_failure_policy\<close> and \<open>Evaluate_failure_message\<close>.
\<close>

theorem early_return_of_first_error:
  "Evaluator_getEvaluation GetMetricUtilizationRatio GetResourceUtilizationRatio defaultTolerance 2
       (objectValueMetric 2 2000 1000 2) = Inr \<lparr>ev_TargetReplicas = 4\<rparr>
   \<and> Evaluator_GetEvaluation GetMetricUtilizationRatio GetResourceUtilizationRatio defaultTolerance
       [objectValueMetric 2 2000 1000 2, resourceMetric 2 noTarget None None]
     = Inl (Error ''invalid resource metric source: neither a utilization target nor a value target was set'')"
proof -
  have o4: "Evaluator_getEvaluation GetMetricUtilizationRatio GetResourceUtilizationRatio
              defaultTolerance 2 (objectValueMetric 2 2000 1000 2) = Inr \<lparr>ev_TargetReplicas = 4\<rparr>"
    by (simp add: Evaluator_getEvaluation_def source_types getObjectEvaluation_def
          objectValueMetric_def getUsageRatioReplicaCount_def defaultTolerance_eq eval_f64)
  have bad: "Evaluator_getEvaluation GetMetricUtilizationRatio GetResourceUtilizationRatio
              defaultTolerance 2 (resourceMetric 2 noTarget None None)
             = Inl (Error ''invalid resource metric source: neither a utilization target nor a value target was set'')"
    by (simp add: Evaluator_getEvaluation_def source_types getResourceEvaluation_def
          resourceMetric_def noTarget_def)
  have cr: "m_CurrentReplicas (objectValueMetric 2 2000 1000 2) = 2"
    "m_CurrentReplicas (resourceMetric 2 noTarget None None) = 2"
    by (simp_all add: objectValueMetric_def resourceMetric_def)
  show ?thesis
    by (simp add: Evaluator_GetEvaluation_def cr o4 bad)
qed

text \<open>
  C7. The earlier \<open>Evaluator.getResourceEvaluation\<close> on a resource metric whose target has an
  \<open>AverageValue\<close> of 50, two pods sampling 100 each, two replicas. As gathered, the metric
  has no object spec, and the call panics on the nil pointer. With an object spec whose
  \<open>AverageValue\<close> is 200 it answers one replica, the plain-metric count for a target of 200.
  The plain-metric count for the target of the resource spec is four replicas; the later
  \<open>resource.Evaluate.GetEvaluation\<close> computes that one (lemma \<open>Resource_average_value\<close>).
\<close>

theorem resource_average_value_reads_object_spec:
  "getResourceEvaluation GetMetricUtilizationRatio GetResourceUtilizationRatio defaultTolerance 2
       (resourceMetric 2 (averageValueTarget 50) None (Some twoPods)) = Inl NilPointerPanic
   \<and> getResourceEvaluation GetMetricUtilizationRatio GetResourceUtilizationRatio defaultTolerance 2
       (resourceMetric 2 (averageValueTarget 50)
          (Some \<lparr>src_Name = ''hits'', src_Target = averageValueTarget 200\<rparr>) (Some twoPods))
     = Inr (\<lparr>ev_TargetReplicas = 1\<rparr>, rm_PodMetricsInfo twoPods)
   \<and> getPlainMetricReplicaCount GetMetricUtilizationRatio defaultTolerance (rm_PodMetricsInfo twoPods)
        2 50 (rm_ReadyPodCount twoPods) (rm_MissingPods twoPods) (rm_IgnoredPods twoPods)
     = Inr (4, rm_PodMetricsInfo twoPods)"
proof -
  have p50: "getPlainMetricReplicaCount GetMetricUtilizationRatio defaultTolerance
        [''pod-1'' \<mapsto> PodMetricValue 100, ''pod-2'' \<mapsto> PodMetricValue 100] 2 50 2 {||} {||}
     = Inr (4, [''pod-1'' \<mapsto> PodMetricValue 100, ''pod-2'' \<mapsto> PodMetricValue 100])"
    by (simp add: eval_plain)
  have p200: "getPlainMetricReplicaCount GetMetricUtilizationRatio defaultTolerance
        [''pod-1'' \<mapsto> PodMetricValue 100, ''pod-2'' \<mapsto> PodMetricValue 100] 2 200 2 {||} {||}
     = Inr (1, [''pod-1'' \<mapsto> PodMetricValue 100, ''pod-2'' \<mapsto> PodMetricValue 100])"
    by (simp add: eval_plain)
  show ?thesis
    by (simp add: getResourceEvaluation_def resourceMetric_def averageValueTarget_def twoPods_def
          p50 p200)
qed

text \<open>
  C10. The empty input: the evaluator facade called with no gathered metric returns the
  error \<open>invalid evaluations (0 invalid out of 0), first error is: <nil>\<close>, and the gatherer
  facade called with no metric spec returns the error
  \<open>invalid metrics (0 invalid out of 0), first error is: <nil>\<close>, or, for an object of an
  unsupported type, the error about that type; neither returns a success.
\<close>

theorem empty_input_is_an_error:
  "Evaluate_GetEvaluation e [] =
     Inl (Error ''invalid evaluations (0 invalid out of 0), first error is: <nil>'')
   \<and> Gather_GetMetrics getMetric resource [] namespace =
       (case obj_Kind resource of
          OtherKind typeName \<Rightarrow> Inl (Error (''Unsupported resource of type '' @ typeName))
        | _ \<Rightarrow> Inl (Error ''invalid metrics (0 invalid out of 0), first error is: <nil>''))"
  by (simp add: Evaluate_GetEvaluation_def Gather_GetMetrics_def getReplicaCount_def
        invalidEvaluations_def invalidMetrics_def show_nat_0 show_error_def Let_def
      split: ObjectKind.splits)


text \<open>The two facades on the empty list, for a deployment with three replicas.\<close>

theorem empty_input_is_an_error_witness:
  "Evaluate_GetEvaluation
     \<lparr>e_External = (\<lambda>currentReplicas gm. Inl (Error ''unable to get external metric'')),
      e_Object = (\<lambda>currentReplicas gm. Inr \<lparr>ev_TargetReplicas = 5\<rparr>),
      e_Pods = (\<lambda>currentReplicas gm. Inr \<lparr>ev_TargetReplicas = 9\<rparr>),
      e_Resource = (\<lambda>currentReplicas gm. Inr \<lparr>ev_TargetReplicas = - 25\<rparr>)\<rparr> []
     \<noteq> Inr None
   \<and> Gather_GetMetrics (\<lambda>currentReplicas spec namespace selector. Inr (metricOfType (ms_Type spec) currentReplicas))
       \<lparr>obj_Kind = Deployment, obj_Labels = Map.empty, obj_Replicas = Some 3\<rparr> [] ''default''
     = Inl (Error ''invalid metrics (0 invalid out of 0), first error is: <nil>'')"
  using empty_input_is_an_error [where e = "\<lparr>e_External = (\<lambda>currentReplicas gm. Inl (Error ''unable to get external metric'')),
      e_Object = (\<lambda>currentReplicas gm. Inr \<lparr>ev_TargetReplicas = 5\<rparr>),
      e_Pods = (\<lambda>currentReplicas gm. Inr \<lparr>ev_TargetReplicas = 9\<rparr>),
      e_Resource = (\<lambda>currentReplicas gm. Inr \<lparr>ev_TargetReplicas = - 25\<rparr>)\<rparr>"
    and getMetric = "\<lambda>currentReplicas spec namespace selector. Inr (metricOfType (ms_Type spec) currentReplicas)"
    and resource = "\<lparr>obj_Kind = Deployment, obj_Labels = Map.empty, obj_Replicas = Some 3\<rparr>"
    and namespace = "''default''"]
  by simp

end
